theory Spec2Isabelle
  imports Complex_Main
begin

section \<open>Go values the gateway handles\<close>

text \<open>
  The gateway (\<^verbatim>\<open>src/main.go\<close>) decodes JSON, builds a write point or a Flux query,
  calls the InfluxDB client once and encodes a JSON response. A \<^verbatim>\<open>time.Time\<close> is
  modelled as the number of nanoseconds since the Unix epoch. The zero \<^verbatim>\<open>time.Time\<close>
  is January 1 of year 1, which lies 62135596800 seconds before the epoch. A
  \<^verbatim>\<open>float64\<close> is only ever copied by the gateway (no arithmetic, no comparison), so
  the finite values that JSON can carry are modelled as reals.
\<close>

type_synonym gotime = int
type_synonym float64 = real

definition second :: int where
  "second = 1000000000"

definition hour :: int where
  "hour = 3600 * second"

definition day :: int where
  "day = 24 * hour"

definition zeroTime :: gotime where
  "zeroTime = - 62135596800 * second"

definition IsZero :: "gotime \<Rightarrow> bool" where
  "IsZero t = (t = zeroTime)"

definition Unix :: "gotime \<Rightarrow> int" where
  "Unix t = t div second"

subsection \<open>Decimal formatting and parsing\<close>

text \<open>\<^verbatim>\<open>fmt.Sprintf("%d", n)\<close>: the decimal digits of \<open>n\<close>, with a minus sign when negative.\<close>

definition digit_char :: "nat \<Rightarrow> char" where
  "digit_char d = ''0123456789'' ! d"

fun show_nat :: "nat \<Rightarrow> string" where
  "show_nat n = (if n < 10 then [digit_char n] else show_nat (n div 10) @ [digit_char (n mod 10)])"

declare show_nat.simps [simp del]

definition show_int :: "int \<Rightarrow> string" where
  "show_int i = (if i < 0 then CHR ''-'' # show_nat (nat (- i)) else show_nat (nat i))"

text \<open>
  \<^verbatim>\<open>strconv.Atoi\<close> of the Go standard library: an optional sign, then at least one
  decimal digit and nothing else; the value has to fit the 64-bit \<^verbatim>\<open>int\<close>. Every
  other string is an error (\<open>None\<close>).
\<close>

definition is_digit :: "char \<Rightarrow> bool" where
  "is_digit c = (48 \<le> (of_char c :: nat) \<and> (of_char c :: nat) \<le> 57)"

definition digit_val :: "char \<Rightarrow> int" where
  "digit_val c = of_char c - 48"

fun parse_digits :: "int \<Rightarrow> string \<Rightarrow> int option" where
  "parse_digits acc [] = Some acc"
| "parse_digits acc (c # cs) =
     (if is_digit c then parse_digits (acc * 10 + digit_val c) cs else None)"

definition in_int_range :: "int \<Rightarrow> bool" where
  "in_int_range v = (- (2 ^ 63) \<le> v \<and> v \<le> 2 ^ 63 - 1)"

definition Atoi :: "string \<Rightarrow> int option" where
  "Atoi s =
     (case s of
        [] \<Rightarrow> None
      | c # cs \<Rightarrow>
          (let neg = (c = CHR ''-'');
               ds = (if c = CHR ''-'' \<or> c = CHR ''+'' then cs else s)
           in if ds = [] then None
              else (case parse_digits 0 ds of
                      None \<Rightarrow> None
                    | Some n \<Rightarrow>
                        (let v = (if neg then - n else n)
                         in if in_int_range v then Some v else None))))"

text \<open>
  \<^verbatim>\<open>r.URL.Query().Get(key)\<close>: the first value of the parameter, the empty string
  when the parameter is absent.
\<close>

type_synonym url_values = "(string \<times> string) list"

definition Get :: "url_values \<Rightarrow> string \<Rightarrow> string" where
  "Get q key = (case map_of q key of None \<Rightarrow> [] | Some v \<Rightarrow> v)"

section \<open>Data model\<close>

record SensorData =
  ID :: string
  Timestamp :: gotime
  Temperature :: float64
  Humidity :: float64
  Pressure :: float64
  Altitude :: float64
  Location :: string

text \<open>
  The \<^verbatim>\<open>Data\<close> member of a response is an \<^verbatim>\<open>interface{}\<close>; these are the values the
  handlers put there. The slice of the list handler is a list; the nil slice it sends
  when the store has no rows is the empty list.
\<close>

datatype payload =
    NoData
  | OneReading SensorData
  | ManyReadings "SensorData list"
  | HealthInfo string gotime string

record Response =
  Status :: string
  Message :: string
  Data :: payload

record App =
  bucket :: string
  org :: string

section \<open>The time-series store\<close>

text \<open>
  The store is an external service. Its model keeps what the gateway can observe of it:
  an append-only log of points per bucket, whether a call reaches it, whether a result
  stream breaks after some rows, and the status string of its health endpoint.
\<close>

datatype flux_value = VString string | VFloat float64 | VInt int | VTime gotime

type_synonym flux_record = "(string \<times> flux_value) list"

record point =
  measurement :: string
  ptags :: "(string \<times> string) list"
  pfields :: "(string \<times> flux_value) list"
  ptime :: gotime

record store =
  points :: "(string \<times> point) list"
  reachable :: bool
  stream_fault :: "nat option"
  status :: string

datatype store_error = CallFailed

subsection \<open>Building and writing a point\<close>

fun put :: "'k \<Rightarrow> 'v \<Rightarrow> ('k \<times> 'v) list \<Rightarrow> ('k \<times> 'v) list" where
  "put k v [] = [(k, v)]"
| "put k v ((k', v') # kvs) = (if k = k' then (k, v) # kvs else (k', v') # put k v kvs)"

definition NewPointWithMeasurement :: "string \<Rightarrow> point" where
  "NewPointWithMeasurement m = \<lparr>measurement = m, ptags = [], pfields = [], ptime = zeroTime\<rparr>"

definition AddTag :: "string \<Rightarrow> string \<Rightarrow> point \<Rightarrow> point" where
  "AddTag k v p = p\<lparr>ptags := put k v (ptags p)\<rparr>"

definition AddField :: "string \<Rightarrow> float64 \<Rightarrow> point \<Rightarrow> point" where
  "AddField k v p = p\<lparr>pfields := put k (VFloat v) (pfields p)\<rparr>"

definition SetTime :: "gotime \<Rightarrow> point \<Rightarrow> point" where
  "SetTime t p = p\<lparr>ptime := t\<rparr>"

definition WritePoint :: "App \<Rightarrow> store \<Rightarrow> point \<Rightarrow> store_error + store" where
  "WritePoint app st p =
     (if reachable st then Inr (st\<lparr>points := points st @ [(bucket app, p)]\<rparr>)
      else Inl CallFailed)"

subsection \<open>Flux pipelines\<close>

text \<open>
  The handlers build the query text with \<^verbatim>\<open>fmt.Sprintf\<close>. The model keeps the query as
  the list of its pipeline stages, in the order in which the text lists them;
  \<open>stage_text\<close> gives the text of each stage as the source writes it (the source
  separates the stages by line breaks and tabs). A tag value is put into the text as it
  is, without escaping.
\<close>

datatype duration = Hours int | Days int

fun duration_ns :: "duration \<Rightarrow> int" where
  "duration_ns (Hours n) = n * hour"
| "duration_ns (Days n) = n * day"

datatype flux_stage =
    From string
  | RangeStart duration
  | FilterMeasurement string
  | FilterTag string string
  | Pivot
  | Limit int
  | SortTimeDesc

fun duration_text :: "duration \<Rightarrow> string" where
  "duration_text (Hours n) = show_int n @ ''h''"
| "duration_text (Days n) = show_int n @ ''d''"

fun stage_text :: "flux_stage \<Rightarrow> string" where
  "stage_text (From b) = ''from(bucket: \"'' @ b @ ''\")''"
| "stage_text (RangeStart d) = ''|> range(start: '' @ duration_text d @ '')''"
| "stage_text (FilterMeasurement m) = ''|> filter(fn: (r) => r._measurement == \"'' @ m @ ''\")''"
| "stage_text (FilterTag k v) = ''|> filter(fn: (r) => r.'' @ k @ '' == \"'' @ v @ ''\")''"
| "stage_text Pivot =
     ''|> pivot(rowKey:[\"_time\"], columnKey: [\"_field\"], valueColumn: \"_value\")''"
| "stage_text (Limit n) = ''|> limit(n: '' @ show_int n @ '')''"
| "stage_text SortTimeDesc = ''|> sort(columns: [\"_time\"], desc: true)''"

text \<open>\<^verbatim>\<open>record.ValueByKey\<close> and \<^verbatim>\<open>record.Time\<close> of the client's result rows.\<close>

definition ValueByKey :: "flux_record \<Rightarrow> string \<Rightarrow> flux_value option" where
  "ValueByKey record key = map_of record key"

definition Time :: "flux_record \<Rightarrow> gotime" where
  "Time record = (case map_of record ''_time'' of Some (VTime t) \<Rightarrow> t | _ \<Rightarrow> zeroTime)"

text \<open>Before the pivot a point is one row per field, with the columns \<open>_field\<close> and \<open>_value\<close>.\<close>

definition base_columns :: "point \<Rightarrow> flux_record" where
  "base_columns p =
     [(''_time'', VTime (ptime p)), (''_measurement'', VString (measurement p))]
     @ map (\<lambda>(k, v). (k, VString v)) (ptags p)"

definition series_rows :: "point \<Rightarrow> flux_record list" where
  "series_rows p =
     map (\<lambda>(f, v). base_columns p @ [(''_field'', VString f), (''_value'', v)]) (pfields p)"

text \<open>
  \<^verbatim>\<open>pivot(rowKey:["_time"], columnKey: ["_field"], valueColumn: "_value")\<close>: rows that
  agree on every other column become one row, which has a column per field.
\<close>

definition row_key :: "flux_record \<Rightarrow> flux_record" where
  "row_key r = filter (\<lambda>(k, v). k \<noteq> ''_field'' \<and> k \<noteq> ''_value'') r"

definition row_column :: "flux_record \<Rightarrow> flux_record" where
  "row_column r =
     (case (map_of r ''_field'', map_of r ''_value'') of
        (Some (VString f), Some v) \<Rightarrow> [(f, v)]
      | _ \<Rightarrow> [])"

fun pivot_add :: "flux_record \<Rightarrow> (flux_record \<times> flux_record) list \<Rightarrow> (flux_record \<times> flux_record) list" where
  "pivot_add r [] = [(row_key r, row_column r)]"
| "pivot_add r ((k, cs) # out) =
     (if k = row_key r then (k, cs @ row_column r) # out else (k, cs) # pivot_add r out)"

definition pivot :: "flux_record list \<Rightarrow> flux_record list" where
  "pivot rows = map (\<lambda>(k, cs). k @ cs) (foldl (\<lambda>out r. pivot_add r out) [] rows)"

text \<open>
  One stage applied to the table that the stages before it produced. \<open>From\<close> reads
  the bucket in time order; \<open>RangeStart start\<close> keeps the rows from \<open>now + start\<close> (the
  start is negative) up to \<open>now\<close>; the sort is stable.
\<close>

fun apply_stage :: "(string \<times> point) list \<Rightarrow> gotime \<Rightarrow> flux_record list \<Rightarrow> flux_stage \<Rightarrow> flux_record list" where
  "apply_stage db now tbl (From b) =
     concat (map series_rows (sort_key ptime (map snd (filter (\<lambda>(b', p). b' = b) db))))"
| "apply_stage db now tbl (RangeStart start) =
     filter (\<lambda>r. now + duration_ns start \<le> Time r \<and> Time r < now) tbl"
| "apply_stage db now tbl (FilterMeasurement m) =
     filter (\<lambda>r. map_of r ''_measurement'' = Some (VString m)) tbl"
| "apply_stage db now tbl (FilterTag k v) =
     filter (\<lambda>r. map_of r k = Some (VString v)) tbl"
| "apply_stage db now tbl Pivot = pivot tbl"
| "apply_stage db now tbl (Limit n) = take (nat n) tbl"
| "apply_stage db now tbl SortTimeDesc = sort_key (\<lambda>r. - Time r) tbl"

definition run_flux :: "(string \<times> point) list \<Rightarrow> gotime \<Rightarrow> flux_stage list \<Rightarrow> flux_record list" where
  "run_flux db now stages = foldl (apply_stage db now) [] stages"

text \<open>
  \<^verbatim>\<open>queryAPI.Query\<close> fails when the call does not reach the store. Otherwise it
  returns a result to iterate: the rows delivered, and whether the stream ended in an
  error (\<^verbatim>\<open>result.Err()\<close>).
\<close>

record query_result =
  rows :: "flux_record list"
  failed :: bool

definition Query :: "store \<Rightarrow> gotime \<Rightarrow> flux_stage list \<Rightarrow> store_error + query_result" where
  "Query st now stages =
     (if reachable st then
        (let all_rows = run_flux (points st) now stages
         in Inr (case stream_fault st of
                   None \<Rightarrow> \<lparr>rows = all_rows, failed = False\<rparr>
                 | Some n \<Rightarrow> \<lparr>rows = take n all_rows, failed = True\<rparr>))
      else Inl CallFailed)"

definition Health :: "store \<Rightarrow> store_error + string" where
  "Health st = (if reachable st then Inr (status st) else Inl CallFailed)"

section \<open>Requests and responses\<close>

text \<open>
  What a handler reads of a request: the path variables of the router
  (\<^verbatim>\<open>mux.Vars(r)\<close>), the URL query parameters, and the result of decoding the body
  into a \<^verbatim>\<open>SensorData\<close> (\<open>None\<close> when \<^verbatim>\<open>Decode\<close> returns an error; members the JSON
  leaves out keep their zero values).
\<close>

record request =
  vars :: "(string \<times> string) list"
  url_query :: url_values
  decoded_body :: "SensorData option"

definition StatusOK :: nat where
  "StatusOK = 200"

definition StatusCreated :: nat where
  "StatusCreated = 201"

definition StatusBadRequest :: nat where
  "StatusBadRequest = 400"

definition StatusNotFound :: nat where
  "StatusNotFound = 404"

definition StatusInternalServerError :: nat where
  "StatusInternalServerError = 500"

definition StatusNotImplemented :: nat where
  "StatusNotImplemented = 501"

definition StatusServiceUnavailable :: nat where
  "StatusServiceUnavailable = 503"

text \<open>
  A handler either writes a status code and a response envelope, or panics on a failed
  type assertion (the HTTP server then drops the connection without a response).
\<close>

datatype panic = TypeAssertion string

datatype outcome = Responded nat Response | Panicked panic

definition sendSuccessResponse :: "nat \<Rightarrow> string \<Rightarrow> payload \<Rightarrow> outcome" where
  "sendSuccessResponse statusCode message data =
     Responded statusCode \<lparr>Status = ''success'', Message = message, Data = data\<rparr>"

text \<open>The error passed to \<^verbatim>\<open>sendErrorResponse\<close> is only logged; the response does not depend on it.\<close>

definition sendErrorResponse :: "nat \<Rightarrow> string \<Rightarrow> outcome" where
  "sendErrorResponse statusCode message =
     Responded statusCode \<lparr>Status = ''error'', Message = message, Data = NoData\<rparr>"

section \<open>Handlers\<close>

text \<open>
  Each handler takes the configuration, the time of the request, the request and the store,
  and returns its outcome; Create, Update and Delete also return the store after the
  request. The router, the CORS middleware and the start-up code of \<^verbatim>\<open>main\<close> are not
  modelled.
\<close>

definition createSensorData :: "App \<Rightarrow> gotime \<Rightarrow> request \<Rightarrow> store \<Rightarrow> outcome \<times> store" where
  "createSensorData app now r st =
     (case decoded_body r of
        None \<Rightarrow> (sendErrorResponse StatusBadRequest ''Invalid JSON format'', st)
      | Some data0 \<Rightarrow>
          (let data1 = (if IsZero (Timestamp data0) then data0\<lparr>Timestamp := now\<rparr> else data0);
               data = (if ID data1 = [] then data1\<lparr>ID := ''sensor_'' @ show_int (Unix (Timestamp data1))\<rparr>
                       else data1);
               p = SetTime (Timestamp data)
                     (AddField ''altitude'' (Altitude data)
                       (AddField ''pressure'' (Pressure data)
                         (AddField ''humidity'' (Humidity data)
                           (AddField ''temperature'' (Temperature data)
                             (AddTag ''location'' (Location data)
                               (AddTag ''sensor_id'' (ID data)
                                 (NewPointWithMeasurement ''sensor_readings'')))))))
           in case WritePoint app st p of
                Inl err \<Rightarrow> (sendErrorResponse StatusInternalServerError ''Failed to write to database'', st)
              | Inr st' \<Rightarrow>
                  (sendSuccessResponse StatusCreated ''Sensor data created successfully'' (OneReading data), st')))"

text \<open>
  Decoding one result row, as both query handlers do it: the assertions
  \<^verbatim>\<open>.(string)\<close> and \<^verbatim>\<open>.(float64)\<close> panic on a value of another type, and
  \<^verbatim>\<open>.(string)\<close> panics on \<^verbatim>\<open>nil\<close> too; the four measurements are guarded by
  \<^verbatim>\<open>!= nil\<close> and keep the zero value of the struct otherwise.
\<close>

definition assert_string :: "string \<Rightarrow> flux_value option \<Rightarrow> panic + string" where
  "assert_string key v = (case v of Some (VString s) \<Rightarrow> Inr s | _ \<Rightarrow> Inl (TypeAssertion key))"

definition assert_float64 :: "string \<Rightarrow> flux_value \<Rightarrow> panic + float64" where
  "assert_float64 key v = (case v of VFloat x \<Rightarrow> Inr x | _ \<Rightarrow> Inl (TypeAssertion key))"

definition extract_field :: "flux_record \<Rightarrow> string \<Rightarrow> float64 \<Rightarrow> panic + float64" where
  "extract_field record key zero =
     (case ValueByKey record key of
        None \<Rightarrow> Inr zero
      | Some v \<Rightarrow> assert_float64 key v)"

definition decodeRecord :: "flux_record \<Rightarrow> panic + SensorData" where
  "decodeRecord record =
     (case assert_string ''sensor_id'' (ValueByKey record ''sensor_id'') of
        Inl pn \<Rightarrow> Inl pn
      | Inr sid \<Rightarrow>
     (case assert_string ''location'' (ValueByKey record ''location'') of
        Inl pn \<Rightarrow> Inl pn
      | Inr loc \<Rightarrow>
     (case extract_field record ''temperature'' 0 of
        Inl pn \<Rightarrow> Inl pn
      | Inr temp \<Rightarrow>
     (case extract_field record ''humidity'' 0 of
        Inl pn \<Rightarrow> Inl pn
      | Inr humidity \<Rightarrow>
     (case extract_field record ''pressure'' 0 of
        Inl pn \<Rightarrow> Inl pn
      | Inr pressure \<Rightarrow>
     (case extract_field record ''altitude'' 0 of
        Inl pn \<Rightarrow> Inl pn
      | Inr altitude \<Rightarrow>
          Inr \<lparr>ID = sid, Timestamp = Time record, Temperature = temp, Humidity = humidity,
               Pressure = pressure, Altitude = altitude, Location = loc\<rparr>))))))"

text \<open>The loop \<^verbatim>\<open>for result.Next()\<close> of the list handler: rows are decoded in order and appended.\<close>

fun decodeRecords :: "flux_record list \<Rightarrow> panic + SensorData list" where
  "decodeRecords [] = Inr []"
| "decodeRecords (record # rest) =
     (case decodeRecord record of
        Inl pn \<Rightarrow> Inl pn
      | Inr data \<Rightarrow>
          (case decodeRecords rest of
             Inl pn \<Rightarrow> Inl pn
           | Inr sensorData \<Rightarrow> Inr (data # sensorData)))"

text \<open>The limit of the list handler: 100 unless the parameter parses as a positive integer.\<close>

definition getSensorData_limitInt :: "string \<Rightarrow> int" where
  "getSensorData_limitInt limit =
     (if limit \<noteq> [] then
        (case Atoi limit of
           Some l \<Rightarrow> if l > 0 then l else 100
         | None \<Rightarrow> 100)
      else 100)"

text \<open>The query of the list handler, stage by stage as the three \<^verbatim>\<open>Sprintf\<close> pieces list them.\<close>

definition getSensorData_query :: "App \<Rightarrow> string \<Rightarrow> int \<Rightarrow> flux_stage list" where
  "getSensorData_query app location limitInt =
     [From (bucket app), RangeStart (Hours (- 24)), FilterMeasurement ''sensor_readings'']
     @ (if location \<noteq> [] then [FilterTag ''location'' location] else [])
     @ [Pivot, Limit limitInt, SortTimeDesc]"

definition getSensorData :: "App \<Rightarrow> gotime \<Rightarrow> request \<Rightarrow> store \<Rightarrow> outcome" where
  "getSensorData app now r st =
     (let limit = Get (url_query r) ''limit'';
          location = Get (url_query r) ''location'';
          limitInt = getSensorData_limitInt limit;
          query = getSensorData_query app location limitInt
      in case Query st now query of
           Inl err \<Rightarrow> sendErrorResponse StatusInternalServerError ''Failed to query database''
         | Inr result \<Rightarrow>
             (case decodeRecords (rows result) of
                Inl pn \<Rightarrow> Panicked pn
              | Inr sensorData \<Rightarrow>
                  if failed result
                  then sendErrorResponse StatusInternalServerError ''Error processing query results''
                  else sendSuccessResponse StatusOK ''Data retrieved successfully'' (ManyReadings sensorData)))"

definition getSensorDataByID_query :: "App \<Rightarrow> string \<Rightarrow> flux_stage list" where
  "getSensorDataByID_query app id' =
     [From (bucket app), RangeStart (Days (- 30)), FilterMeasurement ''sensor_readings'',
      FilterTag ''sensor_id'' id', Pivot, SortTimeDesc, Limit 1]"

definition getSensorDataByID :: "App \<Rightarrow> gotime \<Rightarrow> request \<Rightarrow> store \<Rightarrow> outcome" where
  "getSensorDataByID app now r st =
     (let id' = Get (vars r) ''id'';
          query = getSensorDataByID_query app id'
      in case Query st now query of
           Inl err \<Rightarrow> sendErrorResponse StatusInternalServerError ''Failed to query database''
         | Inr result \<Rightarrow>
             (case rows result of
                [] \<Rightarrow> sendErrorResponse StatusNotFound ''Sensor data not found''
              | record # rest \<Rightarrow>
                  (case decodeRecord record of
                     Inl pn \<Rightarrow> Panicked pn
                   | Inr data \<Rightarrow> sendSuccessResponse StatusOK ''Data retrieved successfully'' (OneReading data))))"

definition updateSensorData :: "App \<Rightarrow> gotime \<Rightarrow> request \<Rightarrow> store \<Rightarrow> outcome \<times> store" where
  "updateSensorData app now r st =
     (let id' = Get (vars r) ''id''
      in case decoded_body r of
           None \<Rightarrow> (sendErrorResponse StatusBadRequest ''Invalid JSON format'', st)
         | Some updateData0 \<Rightarrow>
             (let updateData1 = updateData0\<lparr>ID := id'\<rparr>;
                  updateData = (if IsZero (Timestamp updateData1) then updateData1\<lparr>Timestamp := now\<rparr>
                                else updateData1);
                  p = SetTime (Timestamp updateData)
                        (AddField ''altitude'' (Altitude updateData)
                          (AddField ''pressure'' (Pressure updateData)
                            (AddField ''humidity'' (Humidity updateData)
                              (AddField ''temperature'' (Temperature updateData)
                                (AddTag ''location'' (Location updateData)
                                  (AddTag ''sensor_id'' (ID updateData)
                                    (NewPointWithMeasurement ''sensor_readings'')))))))
              in case WritePoint app st p of
                   Inl err \<Rightarrow> (sendErrorResponse StatusInternalServerError ''Failed to update data'', st)
                 | Inr st' \<Rightarrow>
                     (sendSuccessResponse StatusOK ''Sensor data updated successfully'' (OneReading updateData), st')))"

definition deleteSensorData :: "App \<Rightarrow> gotime \<Rightarrow> request \<Rightarrow> store \<Rightarrow> outcome \<times> store" where
  "deleteSensorData app now r st =
     (sendErrorResponse StatusNotImplemented ''Delete operation not implemented for time series data'', st)"

definition healthCheck :: "App \<Rightarrow> gotime \<Rightarrow> request \<Rightarrow> store \<Rightarrow> outcome" where
  "healthCheck app now r st =
     (case Health st of
        Inl err \<Rightarrow> sendErrorResponse StatusServiceUnavailable ''Database connection failed''
      | Inr health_status \<Rightarrow>
          if health_status \<noteq> ''pass''
          then sendErrorResponse StatusServiceUnavailable ''Database connection failed''
          else sendSuccessResponse StatusOK ''Service is healthy'' (HealthInfo ''healthy'' now ''connected''))"

section \<open>Vocabulary of the properties\<close>

subsection \<open>Outcomes\<close>

text \<open>
  The error kinds of the specification and the status code each one is sent with. A
  handler fails with a kind when it responds with that code and an error envelope. Two
  outcomes are of the same kind when both succeed or both fail with the same error kind.
\<close>

datatype error_kind = BadRequest | NotFound | StorageError | NotImplemented

fun kind_code :: "error_kind \<Rightarrow> nat" where
  "kind_code BadRequest = StatusBadRequest"
| "kind_code NotFound = StatusNotFound"
| "kind_code StorageError = StatusInternalServerError"
| "kind_code NotImplemented = StatusNotImplemented"

definition fails_with :: "error_kind \<Rightarrow> outcome \<Rightarrow> bool" where
  "fails_with kind out =
     (case out of
        Responded code resp \<Rightarrow> code = kind_code kind \<and> Status resp = ''error''
      | Panicked pn \<Rightarrow> False)"

definition succeeded :: "outcome \<Rightarrow> bool" where
  "succeeded out =
     (case out of
        Responded code resp \<Rightarrow> Status resp = ''success''
      | Panicked pn \<Rightarrow> False)"

definition is_error_response :: "outcome \<Rightarrow> bool" where
  "is_error_response out =
     (case out of
        Responded code resp \<Rightarrow> Status resp = ''error'' \<and> 400 \<le> code
      | Panicked pn \<Rightarrow> False)"

definition response_data :: "outcome \<Rightarrow> payload" where
  "response_data out = (case out of Responded code resp \<Rightarrow> Data resp | Panicked pn \<Rightarrow> NoData)"

definition same_kind :: "outcome \<Rightarrow> outcome \<Rightarrow> bool" where
  "same_kind a b =
     (succeeded a = succeeded b
      \<and> fails_with BadRequest a = fails_with BadRequest b
      \<and> fails_with NotFound a = fails_with NotFound b
      \<and> fails_with StorageError a = fails_with StorageError b
      \<and> fails_with NotImplemented a = fails_with NotImplemented b)"

subsection \<open>Readings, points and rows\<close>

text \<open>
  The point that Create and Update build from a reading (measurement
  \<open>sensor_readings\<close>, the tags \<open>sensor_id\<close> and \<open>location\<close>, the four measurements as
  fields, the timestamp of the reading), the reading after the two defaulting steps of
  Create, and the row such a point pivots to.
\<close>

definition sensor_point :: "SensorData \<Rightarrow> point" where
  "sensor_point data =
     \<lparr>measurement = ''sensor_readings'',
      ptags = [(''sensor_id'', ID data), (''location'', Location data)],
      pfields = [(''temperature'', VFloat (Temperature data)), (''humidity'', VFloat (Humidity data)),
                 (''pressure'', VFloat (Pressure data)), (''altitude'', VFloat (Altitude data))],
      ptime = Timestamp data\<rparr>"

definition create_defaults :: "gotime \<Rightarrow> SensorData \<Rightarrow> SensorData" where
  "create_defaults now d =
     (let ts = (if IsZero (Timestamp d) then now else Timestamp d)
      in d\<lparr>Timestamp := ts,
           ID := (if ID d = [] then ''sensor_'' @ show_int (Unix ts) else ID d)\<rparr>)"

definition reading_row :: "SensorData \<Rightarrow> flux_record" where
  "reading_row d =
     [(''_time'', VTime (Timestamp d)), (''_measurement'', VString ''sensor_readings''),
      (''sensor_id'', VString (ID d)), (''location'', VString (Location d)),
      (''temperature'', VFloat (Temperature d)), (''humidity'', VFloat (Humidity d)),
      (''pressure'', VFloat (Pressure d)), (''altitude'', VFloat (Altitude d))]"

text \<open>
  How a measurement of a decoded reading relates to its column in the row: 0 when the
  column is absent, the value of the column otherwise.
\<close>

definition field_from :: "flux_record \<Rightarrow> string \<Rightarrow> float64 \<Rightarrow> bool" where
  "field_from record key x =
     (case ValueByKey record key of
        None \<Rightarrow> x = 0
      | Some v \<Rightarrow> v = VFloat x)"

definition fields_from :: "flux_record \<Rightarrow> SensorData \<Rightarrow> bool" where
  "fields_from record data =
     (field_from record ''temperature'' (Temperature data)
      \<and> field_from record ''humidity'' (Humidity data)
      \<and> field_from record ''pressure'' (Pressure data)
      \<and> field_from record ''altitude'' (Altitude data))"

definition nil_or_float64 :: "flux_value option \<Rightarrow> bool" where
  "nil_or_float64 v = (case v of None \<Rightarrow> True | Some (VFloat x) \<Rightarrow> True | Some _ \<Rightarrow> False)"

text \<open>
  Points as the gateway writes them, and stores that hold nothing else. The rows such
  points pivot to have string columns \<open>sensor_id\<close> and \<open>location\<close> and float fields, so the
  type assertions of the query handlers hold on them.
\<close>

definition is_float64 :: "flux_value \<Rightarrow> bool" where
  "is_float64 v = (case v of VFloat x \<Rightarrow> True | _ \<Rightarrow> False)"

definition is_string :: "flux_value option \<Rightarrow> bool" where
  "is_string v = (case v of Some (VString s) \<Rightarrow> True | _ \<Rightarrow> False)"

definition gateway_point :: "point \<Rightarrow> bool" where
  "gateway_point p =
     (measurement p = ''sensor_readings''
      \<and> map fst (ptags p) = [''sensor_id'', ''location'']
      \<and> map fst (pfields p) = [''temperature'', ''humidity'', ''pressure'', ''altitude'']
      \<and> list_all is_float64 (map snd (pfields p)))"

definition gateway_store :: "store \<Rightarrow> bool" where
  "gateway_store st = list_all (\<lambda>(b, p). gateway_point p) (points st)"

definition key_ok :: "flux_record \<Rightarrow> bool" where
  "key_ok k =
     (is_string (map_of k ''sensor_id'') \<and> is_string (map_of k ''location'')
      \<and> map_of k ''temperature'' = None \<and> map_of k ''humidity'' = None
      \<and> map_of k ''pressure'' = None \<and> map_of k ''altitude'' = None)"

definition float_columns :: "flux_record \<Rightarrow> bool" where
  "float_columns cs = list_all is_float64 (map snd cs)"

subsection \<open>Parts of the two queries\<close>

text \<open>
  The stages of the two queries before the pivot, and the query by id up to the pivot:
  its rows are all the readings of the id in the last 30 days, from which the sort and
  the limit pick one.
\<close>

definition getSensorDataByID_filters :: "App \<Rightarrow> string \<Rightarrow> flux_stage list" where
  "getSensorDataByID_filters app id' =
     [From (bucket app), RangeStart (Days (- 30)), FilterMeasurement ''sensor_readings'',
      FilterTag ''sensor_id'' id']"

definition getSensorDataByID_candidates :: "App \<Rightarrow> string \<Rightarrow> flux_stage list" where
  "getSensorDataByID_candidates app id' = getSensorDataByID_filters app id' @ [Pivot]"

definition getSensorData_filters :: "App \<Rightarrow> string \<Rightarrow> flux_stage list" where
  "getSensorData_filters app location =
     [From (bucket app), RangeStart (Hours (- 24)), FilterMeasurement ''sensor_readings'']
     @ (if location \<noteq> [] then [FilterTag ''location'' location] else [])"

text \<open>The points that the filters of the query by id keep.\<close>

definition byid_matches :: "gotime \<Rightarrow> string \<Rightarrow> point \<Rightarrow> bool" where
  "byid_matches now i p =
     (now - 30 * day \<le> ptime p \<and> ptime p < now \<and> measurement p = ''sensor_readings''
      \<and> map_of (ptags p) ''sensor_id'' = Some i)"

subsection \<open>Update as the specification words it\<close>

text \<open>
  ``Identical to Create but forces the id from the path parameter'': \<open>update_spec\<close> is
  this description, Create run on the request whose decoded body has the path id;
  \<open>updateSensorData\<close> above is the code.
\<close>

definition force_id :: "request \<Rightarrow> request" where
  "force_id r = r\<lparr>decoded_body := map_option (\<lambda>d. d\<lparr>ID := Get (vars r) ''id''\<rparr>) (decoded_body r)\<rparr>"

definition update_spec :: "App \<Rightarrow> gotime \<Rightarrow> request \<Rightarrow> store \<Rightarrow> outcome \<times> store" where
  "update_spec app now r st = createSensorData app now (force_id r) st"

subsection \<open>A store that returns the point written last\<close>

text \<open>
  The proviso of the round trip: a store that answers the query by id with the point most
  recently written for that \<open>sensor_id\<close> tag (and with nothing when no point has the tag).
  \<open>point_row\<close> is the row a point with distinct field names pivots to.
\<close>

definition latest_written :: "string \<Rightarrow> string \<Rightarrow> (string \<times> point) list \<Rightarrow> point option" where
  "latest_written b sid db =
     (case filter (\<lambda>(b', p). b' = b \<and> map_of (ptags p) ''sensor_id'' = Some sid) (rev db) of
        [] \<Rightarrow> None
      | (b', p) # earlier \<Rightarrow> Some p)"

definition point_row :: "point \<Rightarrow> flux_record" where
  "point_row p = base_columns p @ pfields p"

definition returns_latest_written :: "App \<Rightarrow> gotime \<Rightarrow> string \<Rightarrow> store \<Rightarrow> bool" where
  "returns_latest_written app now sid st =
     (Query st now (getSensorDataByID_query app sid) =
        Inr \<lparr>rows = (case latest_written (bucket app) sid (points st) of
                        None \<Rightarrow> []
                      | Some p \<Rightarrow> [point_row p]),
             failed = False\<rparr>)"

section \<open>Example data\<close>

text \<open>The configuration defaults of \<^verbatim>\<open>main\<close>, an empty store, and a store that no call reaches.\<close>

definition example_app :: App where
  "example_app = \<lparr>bucket = ''sensor_data'', org = ''myorg''\<rparr>"

definition empty_store :: store where
  "empty_store = \<lparr>points = [], reachable = True, stream_fault = None, status = ''pass''\<rparr>"

definition unreachable_store :: store where
  "unreachable_store = \<lparr>points = [], reachable = False, stream_fault = None, status = []\<rparr>"


definition put_request :: "string \<Rightarrow> SensorData option \<Rightarrow> request" where
  "put_request i b = \<lparr>vars = [(''id'', i)], url_query = [], decoded_body = b\<rparr>"


definition list_request :: "url_values \<Rightarrow> request" where
  "list_request q = \<lparr>vars = [], url_query = q, decoded_body = None\<rparr>"

text \<open>
  A body without id and timestamp, a body that supplies both, the reading that a first
  Create of the former stores at time 1700000000.123456789, and the store after it.
\<close>

definition bare_reading :: SensorData where
  "bare_reading =
     \<lparr>ID = [], Timestamp = zeroTime, Temperature = 21.5, Humidity = 40, Pressure = 1013,
      Altitude = 120, Location = ''lab''\<rparr>"




text \<open>Two readings of one sensor and a store that holds both.\<close>

definition older_reading :: SensorData where
  "older_reading =
     \<lparr>ID = ''s1'', Timestamp = 1000, Temperature = 20, Humidity = 40, Pressure = 1000,
      Altitude = 10, Location = ''lab''\<rparr>"

definition newer_reading :: SensorData where
  "newer_reading =
     \<lparr>ID = ''s1'', Timestamp = 3000, Temperature = 25, Humidity = 45, Pressure = 1001,
      Altitude = 10, Location = ''lab''\<rparr>"

definition two_store :: store where
  "two_store =
     \<lparr>points = [(''sensor_data'', sensor_point older_reading),
                (''sensor_data'', sensor_point newer_reading)],
      reachable = True, stream_fault = None, status = ''pass''\<rparr>"

text \<open>The same store, with a result stream that breaks after the first row.\<close>

definition broken_store :: store where
  "broken_store = two_store\<lparr>stream_fault := Some 1\<rparr>"

text \<open>
  A store that holds one point with a single field (written by some other client), the
  row it pivots to, and that row decoded.
\<close>

definition partial_point :: point where
  "partial_point =
     \<lparr>measurement = ''sensor_readings'',
      ptags = [(''sensor_id'', ''s1''), (''location'', ''lab'')],
      pfields = [(''temperature'', VFloat 21.5)],
      ptime = 1000\<rparr>"

definition partial_store :: store where
  "partial_store =
     \<lparr>points = [(''sensor_data'', partial_point)], reachable = True, stream_fault = None,
      status = ''pass''\<rparr>"

definition partial_row :: flux_record where
  "partial_row =
     [(''_time'', VTime 1000), (''_measurement'', VString ''sensor_readings''),
      (''sensor_id'', VString ''s1''), (''location'', VString ''lab''),
      (''temperature'', VFloat 21.5)]"

definition partial_reading :: SensorData where
  "partial_reading =
     \<lparr>ID = ''s1'', Timestamp = 1000, Temperature = 21.5, Humidity = 0, Pressure = 0,
      Altitude = 0, Location = ''lab''\<rparr>"

section \<open>Delete\<close>

text \<open>
  Claim C5. For every id and every request body, Delete returns the NotImplemented error
  (HTTP 501 with an error envelope) and performs no store write: the response is the
  same constant for every request and every store, and the store is returned as it was.
\<close>

theorem deleteSensorData_not_implemented:
  "deleteSensorData app now r st =
     (Responded 501 \<lparr>Status = ''error'',
        Message = ''Delete operation not implemented for time series data'', Data = NoData\<rparr>, st)
   \<and> fails_with NotImplemented (fst (deleteSensorData app now r st))
   \<and> snd (deleteSensorData app now r st) = st"
  by (simp add: deleteSensorData_def sendErrorResponse_def StatusNotImplemented_def fails_with_def)

section \<open>Health check\<close>

text \<open>
  Claim C7. HealthCheck reports the service healthy if and only if the health call of the
  store succeeds and the status string it returns equals "pass"; in every other case (the
  call fails, or the status is any other string) the response is an error response.
\<close>

theorem healthCheck_healthy_iff:
  "(succeeded (healthCheck app now r st) \<longleftrightarrow> Health st = Inr ''pass'')
   \<and> (is_error_response (healthCheck app now r st) \<longleftrightarrow> Health st \<noteq> Inr ''pass'')
   \<and> healthCheck app now r st =
       (if Health st = Inr ''pass''
        then Responded 200 \<lparr>Status = ''success'', Message = ''Service is healthy'',
               Data = HealthInfo ''healthy'' now ''connected''\<rparr>
        else Responded 503 \<lparr>Status = ''error'', Message = ''Database connection failed'', Data = NoData\<rparr>)"
  by (cases "Health st")
     (simp_all add: healthCheck_def sendErrorResponse_def sendSuccessResponse_def succeeded_def
        is_error_response_def StatusOK_def StatusServiceUnavailable_def)

section \<open>List: the limit parameter\<close>














section \<open>Decoding result rows\<close>

lemma extract_field_Inr:
  "extract_field row key 0 = Inr x \<Longrightarrow> field_from row key x"
  by (auto simp: extract_field_def field_from_def assert_float64_def
      split: option.splits flux_value.splits)

lemma extract_field_total:
  "nil_or_float64 (ValueByKey row key) \<Longrightarrow> \<exists>x. extract_field row key 0 = Inr x"
  by (auto simp: extract_field_def nil_or_float64_def assert_float64_def
      split: option.splits flux_value.splits)

lemma decodeRecord_fields_from:
  assumes "decodeRecord row = Inr data"
  shows "fields_from row data"
  using assms unfolding decodeRecord_def fields_from_def
  by (auto split: sum.splits dest: extract_field_Inr)

lemma decodeRecord_total:
  assumes "ValueByKey row ''sensor_id'' = Some (VString sid)"
    and "ValueByKey row ''location'' = Some (VString loc)"
    and "nil_or_float64 (ValueByKey row ''temperature'')"
    and "nil_or_float64 (ValueByKey row ''humidity'')"
    and "nil_or_float64 (ValueByKey row ''pressure'')"
    and "nil_or_float64 (ValueByKey row ''altitude'')"
  shows "\<exists>data. decodeRecord row = Inr data \<and> ID data = sid \<and> Location data = loc
           \<and> Timestamp data = Time row"
proof -
  from assms(3) obtain t where ft: "extract_field row ''temperature'' 0 = Inr t"
    using extract_field_total by blast
  from assms(4) obtain h where fh: "extract_field row ''humidity'' 0 = Inr h"
    using extract_field_total by blast
  from assms(5) obtain p where fp: "extract_field row ''pressure'' 0 = Inr p"
    using extract_field_total by blast
  from assms(6) obtain a where fa: "extract_field row ''altitude'' 0 = Inr a"
    using extract_field_total by blast
  show ?thesis
    using assms(1,2) by (simp add: decodeRecord_def assert_string_def ft fh fp fa)
qed

lemma decodeRecords_fields_from:
  "decodeRecords records = Inr sensorData \<Longrightarrow> list_all2 fields_from records sensorData"
proof (induction records arbitrary: sensorData)
  case Nil
  then show ?case by simp
next
  case (Cons row rest)
  then show ?case
    by (auto split: sum.splits dest: decodeRecord_fields_from)
qed

lemmas flux_eval_simps =
  run_flux_def series_rows_def base_columns_def pivot_def row_key_def row_column_def Time_def
  hour_def day_def second_def

lemma partial_query_byid:
  "Query partial_store 2000 (getSensorDataByID_query example_app ''s1'')
     = Inr \<lparr>rows = [partial_row], failed = False\<rparr>"
  by (simp add: Query_def partial_store_def partial_point_def partial_row_def example_app_def
      getSensorDataByID_query_def flux_eval_simps)

lemma partial_query_list:
  "Query partial_store 2000 (getSensorData_query example_app [] 100)
     = Inr \<lparr>rows = [partial_row], failed = False\<rparr>"
  by (simp add: Query_def partial_store_def partial_point_def partial_row_def example_app_def
      getSensorData_query_def flux_eval_simps)

lemma partial_decode: "decodeRecord partial_row = Inr partial_reading"
  by (simp add: decodeRecord_def partial_row_def partial_reading_def assert_string_def
      extract_field_def assert_float64_def ValueByKey_def Time_def)

text \<open>
  Claim C10. When a row of the store is decoded in List or GetByID, each of the four
  measurements (temperature, humidity, pressure, altitude) whose value is absent (nil) in
  the row is 0 in the returned reading and causes no error, and a value that is present
  is taken as it is; so every reading that is returned carries all four measurements.
\<close>

theorem decoded_fields_default_zero:
  "(decodeRecord row = Inr data \<longrightarrow> fields_from row data)
   \<and> (ValueByKey row ''sensor_id'' = Some (VString sid)
        \<and> ValueByKey row ''location'' = Some (VString loc)
        \<and> nil_or_float64 (ValueByKey row ''temperature'')
        \<and> nil_or_float64 (ValueByKey row ''humidity'')
        \<and> nil_or_float64 (ValueByKey row ''pressure'')
        \<and> nil_or_float64 (ValueByKey row ''altitude'')
        \<longrightarrow> (\<exists>d. decodeRecord row = Inr d))
   \<and> (getSensorDataByID app now r st
          = Responded code \<lparr>Status = ''success'', Message = msg, Data = OneReading data\<rparr>
        \<longrightarrow> (\<exists>result first rest.
               Query st now (getSensorDataByID_query app (Get (vars r) ''id'')) = Inr result
               \<and> rows result = first # rest \<and> fields_from first data))
   \<and> (getSensorData app now r st
          = Responded code \<lparr>Status = ''success'', Message = msg, Data = ManyReadings sensorData\<rparr>
        \<longrightarrow> (\<exists>result.
               Query st now
                 (getSensorData_query app (Get (url_query r) ''location'')
                    (getSensorData_limitInt (Get (url_query r) ''limit''))) = Inr result
               \<and> list_all2 fields_from (rows result) sensorData))"
proof -
  have one: "decodeRecord row = Inr data \<longrightarrow> fields_from row data"
    by (simp add: decodeRecord_fields_from)
  have total: "ValueByKey row ''sensor_id'' = Some (VString sid)
        \<and> ValueByKey row ''location'' = Some (VString loc)
        \<and> nil_or_float64 (ValueByKey row ''temperature'')
        \<and> nil_or_float64 (ValueByKey row ''humidity'')
        \<and> nil_or_float64 (ValueByKey row ''pressure'')
        \<and> nil_or_float64 (ValueByKey row ''altitude'')
        \<longrightarrow> (\<exists>d. decodeRecord row = Inr d)"
    using decodeRecord_total [of row sid loc] by blast
  have by_id: "getSensorDataByID app now r st
          = Responded code \<lparr>Status = ''success'', Message = msg, Data = OneReading data\<rparr>
        \<longrightarrow> (\<exists>result first rest.
               Query st now (getSensorDataByID_query app (Get (vars r) ''id'')) = Inr result
               \<and> rows result = first # rest \<and> fields_from first data)"
    by (auto simp: getSensorDataByID_def Let_def sendErrorResponse_def sendSuccessResponse_def
        split: sum.splits list.splits dest: decodeRecord_fields_from)
  have listed: "getSensorData app now r st
          = Responded code \<lparr>Status = ''success'', Message = msg, Data = ManyReadings sensorData\<rparr>
        \<longrightarrow> (\<exists>result.
               Query st now
                 (getSensorData_query app (Get (url_query r) ''location'')
                    (getSensorData_limitInt (Get (url_query r) ''limit''))) = Inr result
               \<and> list_all2 fields_from (rows result) sensorData)"
    by (auto simp: getSensorData_def Let_def sendErrorResponse_def sendSuccessResponse_def
        split: sum.splits if_splits dest: decodeRecords_fields_from)
  from one total by_id listed show ?thesis by (intro conjI)
qed

theorem decoded_fields_default_zero_witness:
  "decodeRecord partial_row = Inr partial_reading
   \<and> ValueByKey partial_row ''humidity'' = None
   \<and> Humidity partial_reading = 0
   \<and> ValueByKey partial_row ''temperature'' = Some (VFloat (Temperature partial_reading))
   \<and> fields_from partial_row partial_reading
   \<and> getSensorDataByID example_app 2000 \<lparr>vars = [(''id'', ''s1'')], url_query = [], decoded_body = None\<rparr>
        partial_store
       = Responded 200 \<lparr>Status = ''success'', Message = ''Data retrieved successfully'',
           Data = OneReading partial_reading\<rparr>
   \<and> getSensorData example_app 2000 \<lparr>vars = [], url_query = [], decoded_body = None\<rparr> partial_store
       = Responded 200 \<lparr>Status = ''success'', Message = ''Data retrieved successfully'',
           Data = ManyReadings [partial_reading]\<rparr>"
proof -
  let ?by_id = "\<lparr>vars = [(''id'', ''s1'')], url_query = [], decoded_body = None\<rparr>"
  let ?list = "\<lparr>vars = [], url_query = [], decoded_body = None\<rparr>"
  have dec: "decodeRecord partial_row = Inr partial_reading"
    by (rule partial_decode)
  have typed: "ValueByKey partial_row ''sensor_id'' = Some (VString ''s1'')
        \<and> ValueByKey partial_row ''location'' = Some (VString ''lab'')
        \<and> nil_or_float64 (ValueByKey partial_row ''temperature'')
        \<and> nil_or_float64 (ValueByKey partial_row ''humidity'')
        \<and> nil_or_float64 (ValueByKey partial_row ''pressure'')
        \<and> nil_or_float64 (ValueByKey partial_row ''altitude'')"
    by (simp add: partial_row_def ValueByKey_def nil_or_float64_def)
  have by_id: "getSensorDataByID example_app 2000 ?by_id partial_store
       = Responded 200 \<lparr>Status = ''success'', Message = ''Data retrieved successfully'',
           Data = OneReading partial_reading\<rparr>"
    by (simp add: getSensorDataByID_def Get_def partial_query_byid partial_decode
        sendSuccessResponse_def StatusOK_def)
  have listed': "getSensorData example_app 2000 ?by_id partial_store
       = Responded 200 \<lparr>Status = ''success'', Message = ''Data retrieved successfully'',
           Data = ManyReadings [partial_reading]\<rparr>"
    by (simp add: getSensorData_def Get_def getSensorData_limitInt_def partial_query_list
        partial_decode sendSuccessResponse_def StatusOK_def)
  have listed: "getSensorData example_app 2000 ?list partial_store
       = Responded 200 \<lparr>Status = ''success'', Message = ''Data retrieved successfully'',
           Data = ManyReadings [partial_reading]\<rparr>"
    by (simp add: getSensorData_def Get_def getSensorData_limitInt_def partial_query_list
        partial_decode sendSuccessResponse_def StatusOK_def)
  note t = decoded_fields_default_zero
    [where row = partial_row and data = partial_reading and sid = "''s1''" and loc = "''lab''"
       and app = example_app and now = 2000 and r = ?by_id and st = partial_store and code = 200
       and msg = "''Data retrieved successfully''" and sensorData = "[partial_reading]"]
  from t dec have ff: "fields_from partial_row partial_reading" by blast
  from t typed have "\<exists>d. decodeRecord partial_row = Inr d" by blast
  from t by_id have "\<exists>result first rest.
      Query partial_store 2000 (getSensorDataByID_query example_app (Get (vars ?by_id) ''id'')) = Inr result
      \<and> rows result = first # rest \<and> fields_from first partial_reading"
    by blast
  from t listed' have "\<exists>result.
      Query partial_store 2000
        (getSensorData_query example_app (Get (url_query ?by_id) ''location'')
           (getSensorData_limitInt (Get (url_query ?by_id) ''limit''))) = Inr result
      \<and> list_all2 fields_from (rows result) [partial_reading]"
    by blast
  have absent: "ValueByKey partial_row ''humidity'' = None"
    by (simp add: partial_row_def ValueByKey_def)
  from ff absent have zero: "Humidity partial_reading = 0"
    by (simp add: fields_from_def field_from_def)
  have present: "ValueByKey partial_row ''temperature'' = Some (VFloat 21.5)"
    by (simp add: partial_row_def ValueByKey_def)
  with ff have kept: "ValueByKey partial_row ''temperature'' = Some (VFloat (Temperature partial_reading))"
    by (simp add: fields_from_def field_from_def)
  from dec absent zero kept ff by_id listed show ?thesis by (intro conjI)
qed

section \<open>Create and Update\<close>

text \<open>
  The builder chain of both handlers produces \<open>sensor_point\<close>.
\<close>

lemma built_point:
  "SetTime (Timestamp data)
     (AddField ''altitude'' (Altitude data)
       (AddField ''pressure'' (Pressure data)
         (AddField ''humidity'' (Humidity data)
           (AddField ''temperature'' (Temperature data)
             (AddTag ''location'' (Location data)
               (AddTag ''sensor_id'' (ID data)
                 (NewPointWithMeasurement ''sensor_readings'')))))))
   = sensor_point data"
  by (simp add: SetTime_def AddField_def AddTag_def NewPointWithMeasurement_def sensor_point_def)

lemma ID_after_Timestamp:
  "(d :: SensorData)\<lparr>ID := i, Timestamp := t\<rparr> = d\<lparr>Timestamp := t, ID := i\<rparr>"
  by (cases d) simp

lemma createSensorData_written:
  assumes "decoded_body r = Some d" and "reachable st"
  shows "createSensorData app now r st =
           (Responded 201 \<lparr>Status = ''success'', Message = ''Sensor data created successfully'',
                           Data = OneReading (create_defaults now d)\<rparr>,
            st\<lparr>points := points st @ [(bucket app, sensor_point (create_defaults now d))]\<rparr>)"
  using assms
  by (simp add: createSensorData_def built_point Let_def WritePoint_def sendSuccessResponse_def
      StatusCreated_def create_defaults_def)

lemma updateSensorData_written:
  assumes "decoded_body r = Some d" and "reachable st"
  shows "updateSensorData app now r st =
           (Responded 200 \<lparr>Status = ''success'', Message = ''Sensor data updated successfully'',
                           Data = OneReading (d\<lparr>Timestamp := (if IsZero (Timestamp d) then now else Timestamp d),
                              ID := Get (vars r) ''id''\<rparr>)\<rparr>,
            st\<lparr>points := points st @ [(bucket app, sensor_point (d\<lparr>Timestamp := (if IsZero (Timestamp d) then now else Timestamp d),
                              ID := Get (vars r) ''id''\<rparr>))]\<rparr>)"
  using assms
  by (simp add: updateSensorData_def built_point Let_def WritePoint_def sendSuccessResponse_def
      StatusOK_def ID_after_Timestamp)



lemma update_spec_written:
  assumes "decoded_body r = Some d" and "reachable st" and "Get (vars r) ''id'' \<noteq> []"
  shows "update_spec app now r st =
           (Responded 201 \<lparr>Status = ''success'', Message = ''Sensor data created successfully'',
                           Data = OneReading (d\<lparr>Timestamp := (if IsZero (Timestamp d) then now else Timestamp d),
                              ID := Get (vars r) ''id''\<rparr>)\<rparr>,
            st\<lparr>points := points st @ [(bucket app, sensor_point (d\<lparr>Timestamp := (if IsZero (Timestamp d) then now else Timestamp d),
                              ID := Get (vars r) ''id''\<rparr>))]\<rparr>)"
proof -
  have "decoded_body (force_id r) = Some (d\<lparr>ID := Get (vars r) ''id''\<rparr>)"
    using assms(1) by (simp add: force_id_def)
  from createSensorData_written [OF this assms(2), of app now] assms(3)
  show ?thesis
    by (simp add: update_spec_def create_defaults_def Let_def)
qed

lemma update_malformed:
  assumes "decoded_body r = None"
  shows "updateSensorData app now r st =
           (Responded 400 \<lparr>Status = ''error'', Message = ''Invalid JSON format'', Data = NoData\<rparr>, st)"
    and "update_spec app now r st =
           (Responded 400 \<lparr>Status = ''error'', Message = ''Invalid JSON format'', Data = NoData\<rparr>, st)"
  using assms
  by (simp_all add: updateSensorData_def update_spec_def createSensorData_def force_id_def
      sendErrorResponse_def StatusBadRequest_def)

lemma update_write_fails:
  assumes "decoded_body r = Some d" and "\<not> reachable st"
  shows "updateSensorData app now r st =
           (Responded 500 \<lparr>Status = ''error'', Message = ''Failed to update data'', Data = NoData\<rparr>, st)"
    and "update_spec app now r st =
           (Responded 500 \<lparr>Status = ''error'', Message = ''Failed to write to database'', Data = NoData\<rparr>, st)"
  using assms
  by (simp_all add: updateSensorData_def update_spec_def createSensorData_def force_id_def
      sendErrorResponse_def StatusInternalServerError_def WritePoint_def Let_def)

lemmas outcome_reading =
  same_kind_def succeeded_def fails_with_def response_data_def StatusBadRequest_def
  StatusNotFound_def StatusInternalServerError_def StatusNotImplemented_def

text \<open>
  Claim C6. Update(id, reading) behaves as Create(reading) does after the id of the decoded
  reading is overwritten with the path parameter: it writes the same point (same
  measurement, tags, fields, timestamp defaulting) and echoes the same reading, it does
  not look at the points already stored, and it fails with BadRequest on malformed JSON
  and with StorageError on a failed write just as Create does. The router matches
  \<open>{id}\<close> against a non-empty path segment only, hence the hypothesis.
\<close>

theorem updateSensorData_is_create_with_forced_id:
  assumes "Get (vars r) ''id'' \<noteq> []"
  shows "snd (updateSensorData app now r st) = snd (update_spec app now r st)
         \<and> same_kind (fst (updateSensorData app now r st)) (fst (update_spec app now r st))
         \<and> response_data (fst (updateSensorData app now r st))
             = response_data (fst (update_spec app now r st))
         \<and> (decoded_body r = None \<longrightarrow>
               fails_with BadRequest (fst (updateSensorData app now r st))
               \<and> fails_with BadRequest (fst (update_spec app now r st))
               \<and> snd (updateSensorData app now r st) = st)
         \<and> (decoded_body r \<noteq> None \<and> \<not> reachable st \<longrightarrow>
               fails_with StorageError (fst (updateSensorData app now r st))
               \<and> fails_with StorageError (fst (update_spec app now r st))
               \<and> snd (updateSensorData app now r st) = st)
         \<and> (\<forall>d. decoded_body r = Some d \<and> reachable st \<longrightarrow>
               succeeded (fst (updateSensorData app now r st))
               \<and> snd (updateSensorData app now r st)
                   = st\<lparr>points := points st @
                       [(bucket app,
                         sensor_point (d\<lparr>Timestamp := (if IsZero (Timestamp d) then now else Timestamp d),
                                         ID := Get (vars r) ''id''\<rparr>))]\<rparr>)
         \<and> fst (updateSensorData app now r (st\<lparr>points := others\<rparr>))
             = fst (updateSensorData app now r st)"
proof (cases "decoded_body r")
  case None
  note m = update_malformed [OF None, of app now]
  show ?thesis
    by (simp add: m None outcome_reading)
next
  case (Some d)
  show ?thesis
  proof (cases "reachable st")
    case True
    have up': "reachable (st\<lparr>points := others\<rparr>)"
      using True by simp
    note u = updateSensorData_written [OF Some True, of app now]
    note u' = updateSensorData_written [OF Some up', of app now]
    note c = update_spec_written [OF Some True assms, of app now]
    show ?thesis
      by (simp add: u u' c Some True outcome_reading sensor_point_def)
  next
    case False
    have down': "\<not> reachable (st\<lparr>points := others\<rparr>)"
      using False by simp
    note f = update_write_fails [OF Some False, of app now]
    note f' = update_write_fails [OF Some down', of app now]
    show ?thesis
      by (simp add: f f' Some False outcome_reading)
  qed
qed

theorem updateSensorData_is_create_with_forced_id_witness:
  "snd (updateSensorData example_app 1700000000123456789 (put_request ''dev7'' (Some bare_reading)) empty_store)
     = snd (update_spec example_app 1700000000123456789 (put_request ''dev7'' (Some bare_reading)) empty_store)
   \<and> snd (updateSensorData example_app 1700000000123456789 (put_request ''dev7'' (Some bare_reading)) empty_store)
     = empty_store\<lparr>points :=
         [(''sensor_data'',
           sensor_point (bare_reading\<lparr>Timestamp := 1700000000123456789, ID := ''dev7''\<rparr>))]\<rparr>
   \<and> succeeded (fst (updateSensorData example_app 1700000000123456789
         (put_request ''dev7'' (Some bare_reading)) empty_store))
   \<and> fails_with BadRequest (fst (updateSensorData example_app 1700000000123456789
         (put_request ''dev7'' None) empty_store))
   \<and> fails_with BadRequest (fst (update_spec example_app 1700000000123456789
         (put_request ''dev7'' None) empty_store))
   \<and> fails_with StorageError (fst (updateSensorData example_app 1700000000123456789
         (put_request ''dev7'' (Some bare_reading)) unreachable_store))
   \<and> fails_with StorageError (fst (update_spec example_app 1700000000123456789
         (put_request ''dev7'' (Some bare_reading)) unreachable_store))"
proof -
  let ?now = "1700000000123456789 :: int"
  let ?ok = "put_request ''dev7'' (Some bare_reading)"
  let ?bad = "put_request ''dev7'' None"
  have id_ok: "Get (vars ?ok) ''id'' \<noteq> []" and id_bad: "Get (vars ?bad) ''id'' \<noteq> []"
    by (simp_all add: put_request_def Get_def)
  have gid: "Get (vars ?ok) ''id'' = ''dev7''"
    by (simp add: put_request_def Get_def)
  note t_ok = updateSensorData_is_create_with_forced_id [OF id_ok, of example_app ?now empty_store "[]"]
  note t_bad = updateSensorData_is_create_with_forced_id [OF id_bad, of example_app ?now empty_store "[]"]
  note t_down = updateSensorData_is_create_with_forced_id [OF id_ok, of example_app ?now unreachable_store "[]"]
  have wr: "decoded_body ?ok = Some bare_reading \<and> reachable empty_store"
    by (simp add: put_request_def empty_store_def)
  have malformed: "decoded_body ?bad = None"
    by (simp add: put_request_def)
  have down: "decoded_body ?ok \<noteq> None \<and> \<not> reachable unreachable_store"
    by (simp add: put_request_def unreachable_store_def)
  have zero: "IsZero (Timestamp bare_reading)"
    by (simp add: bare_reading_def IsZero_def)
  from t_ok have 1: "snd (updateSensorData example_app ?now ?ok empty_store)
     = snd (update_spec example_app ?now ?ok empty_store)"
    by blast
  from t_ok wr have "succeeded (fst (updateSensorData example_app ?now ?ok empty_store))
     \<and> snd (updateSensorData example_app ?now ?ok empty_store)
         = empty_store\<lparr>points := points empty_store @
             [(bucket example_app,
               sensor_point (bare_reading\<lparr>Timestamp :=
                   (if IsZero (Timestamp bare_reading) then ?now else Timestamp bare_reading),
                 ID := Get (vars ?ok) ''id''\<rparr>))]\<rparr>"
    by blast
  with zero gid have 2: "snd (updateSensorData example_app ?now ?ok empty_store)
     = empty_store\<lparr>points :=
         [(''sensor_data'', sensor_point (bare_reading\<lparr>Timestamp := ?now, ID := ''dev7''\<rparr>))]\<rparr>"
    and 3: "succeeded (fst (updateSensorData example_app ?now ?ok empty_store))"
    by (simp_all add: empty_store_def example_app_def)
  from t_bad malformed have 4: "fails_with BadRequest (fst (updateSensorData example_app ?now ?bad empty_store))"
    and 5: "fails_with BadRequest (fst (update_spec example_app ?now ?bad empty_store))"
    by blast+
  from t_down down have 6: "fails_with StorageError (fst (updateSensorData example_app ?now ?ok unreachable_store))"
    and 7: "fails_with StorageError (fst (update_spec example_app ?now ?ok unreachable_store))"
    by blast+
  from 1 2 3 4 5 6 7 show ?thesis by (intro conjI)
qed

section \<open>The two queries\<close>

text \<open>The text of the stages of each query, as the source writes them.\<close>

lemma getSensorData_query_text:
  "map stage_text (getSensorData_query app location limitInt) =
     [''from(bucket: \"'' @ bucket app @ ''\")'',
      ''|> range(start: -24h)'',
      ''|> filter(fn: (r) => r._measurement == \"sensor_readings\")'']
     @ (if location \<noteq> [] then [''|> filter(fn: (r) => r.location == \"'' @ location @ ''\")''] else [])
     @ [''|> pivot(rowKey:[\"_time\"], columnKey: [\"_field\"], valueColumn: \"_value\")'',
        ''|> limit(n: '' @ show_int limitInt @ '')'',
        ''|> sort(columns: [\"_time\"], desc: true)'']"
  by (simp add: getSensorData_query_def show_int_def show_nat.simps digit_char_def)

lemma getSensorDataByID_query_text:
  "map stage_text (getSensorDataByID_query app i) =
     [''from(bucket: \"'' @ bucket app @ ''\")'',
      ''|> range(start: -30d)'',
      ''|> filter(fn: (r) => r._measurement == \"sensor_readings\")'',
      ''|> filter(fn: (r) => r.sensor_id == \"'' @ i @ ''\")'',
      ''|> pivot(rowKey:[\"_time\"], columnKey: [\"_field\"], valueColumn: \"_value\")'',
      ''|> sort(columns: [\"_time\"], desc: true)'',
      ''|> limit(n: 1)'']"
  by (simp add: getSensorDataByID_query_def show_int_def show_nat.simps digit_char_def)

section \<open>What the store answers\<close>

subsection \<open>What a pivot keeps\<close>

lemma pivot_add_cases:
  "(k, cs) \<in> set (pivot_add r out) \<Longrightarrow>
     (k, cs) \<in> set out
     \<or> (k = row_key r \<and> (cs = row_column r \<or> (\<exists>cs0. (k, cs0) \<in> set out \<and> cs = cs0 @ row_column r)))"
  by (induction out) (auto split: if_splits)

lemma pivot_add_keeps:
  assumes out: "\<forall>(k, cs) \<in> set out. K k \<and> C cs"
    and r: "K (row_key r)" "C (row_column r)"
    and app: "\<forall>a b. C a \<longrightarrow> C b \<longrightarrow> C (a @ b)"
  shows "\<forall>(k, cs) \<in> set (pivot_add r out). K k \<and> C cs"
proof (clarify)
  fix k cs
  assume "(k, cs) \<in> set (pivot_add r out)"
  from pivot_add_cases [OF this] show "K k \<and> C cs"
  proof (elim disjE conjE exE)
    assume "(k, cs) \<in> set out"
    with out show ?thesis by blast
  next
    assume "k = row_key r" "cs = row_column r"
    with r show ?thesis by simp
  next
    fix cs0
    assume "k = row_key r" "(k, cs0) \<in> set out" "cs = cs0 @ row_column r"
    moreover from this out have "C cs0" by blast
    ultimately show ?thesis using r app by blast
  qed
qed

lemma pivot_fold_keeps:
  assumes "\<forall>(k, cs) \<in> set out. K k \<and> C cs"
    and "\<forall>r \<in> set tbl. K (row_key r) \<and> C (row_column r)"
    and "\<forall>a b. C a \<longrightarrow> C b \<longrightarrow> C (a @ b)"
  shows "\<forall>(k, cs) \<in> set (foldl (\<lambda>out r. pivot_add r out) out tbl). K k \<and> C cs"
  using assms
proof (induction tbl arbitrary: out)
  case Nil
  then show ?case by simp
next
  case (Cons r tbl)
  have step: "\<forall>(k, cs) \<in> set (pivot_add r out). K k \<and> C cs"
    using Cons.prems by (intro pivot_add_keeps) simp_all
  have rest: "\<forall>r \<in> set tbl. K (row_key r) \<and> C (row_column r)"
    using Cons.prems(2) by simp
  from Cons.IH [OF step rest Cons.prems(3)] show ?case by simp
qed

lemma pivot_rows:
  assumes "\<forall>r \<in> set tbl. K (row_key r) \<and> C (row_column r)"
    and "\<forall>a b. C a \<longrightarrow> C b \<longrightarrow> C (a @ b)"
    and "row \<in> set (pivot tbl)"
  shows "\<exists>k cs. row = k @ cs \<and> K k \<and> C cs"
proof -
  from assms(3) obtain k cs where
    in_fold: "(k, cs) \<in> set (foldl (\<lambda>out r. pivot_add r out) [] tbl)" and row: "row = k @ cs"
    by (auto simp: pivot_def)
  have "\<forall>(k, cs) \<in> set (foldl (\<lambda>out r. pivot_add r out) [] tbl). K k \<and> C cs"
    by (rule pivot_fold_keeps [OF _ assms(1) assms(2)]) simp
  with in_fold have "K k \<and> C cs" by blast
  with row show ?thesis by blast
qed

subsection \<open>Rows of points that the gateway wrote\<close>

text \<open>Create, Update and Delete keep a store in this state.\<close>

lemma gateway_point_sensor_point: "gateway_point (sensor_point d)"
  by (simp add: gateway_point_def sensor_point_def is_float64_def)

lemma written_store_cases:
  "snd (createSensorData app now r st) = st
   \<or> (\<exists>d. snd (createSensorData app now r st) = st\<lparr>points := points st @ [(bucket app, sensor_point d)]\<rparr>)"
  "snd (updateSensorData app now r st) = st
   \<or> (\<exists>d. snd (updateSensorData app now r st) = st\<lparr>points := points st @ [(bucket app, sensor_point d)]\<rparr>)"
  by (auto simp: createSensorData_def updateSensorData_def Let_def built_point WritePoint_def
      split: option.splits)

lemma gateway_store_kept:
  assumes "gateway_store st"
  shows "gateway_store (snd (createSensorData app now r st))"
    and "gateway_store (snd (updateSensorData app now r st))"
    and "gateway_store (snd (deleteSensorData app now r st))"
  using assms written_store_cases [of app now r st]
  by (auto simp: gateway_store_def gateway_point_sensor_point deleteSensorData_def)

lemma gateway_store_empty: "gateway_store empty_store"
  by (simp add: gateway_store_def empty_store_def)

lemma gateway_point_tags:
  assumes "gateway_point p"
  obtains sid loc where "ptags p = [(''sensor_id'', sid), (''location'', loc)]"
proof -
  from assms have "map fst (ptags p) = [''sensor_id'', ''location'']"
    by (simp add: gateway_point_def)
  then obtain sid loc where "ptags p = [(''sensor_id'', sid), (''location'', loc)]"
    by (auto simp: map_eq_Cons_conv)
  then show ?thesis by (rule that)
qed

lemma series_row_gateway:
  assumes "gateway_point p" and "r \<in> set (series_rows p)"
  shows "key_ok (row_key r) \<and> float_columns (row_column r)"
proof -
  from assms(1) obtain sid loc where tags: "ptags p = [(''sensor_id'', sid), (''location'', loc)]"
    by (rule gateway_point_tags)
  from assms(2) obtain f v where fv: "(f, v) \<in> set (pfields p)"
    and r: "r = base_columns p @ [(''_field'', VString f), (''_value'', v)]"
    by (auto simp: series_rows_def)
  from assms(1) fv have "is_float64 v"
    by (auto simp: gateway_point_def list_all_iff)
  with r tags show ?thesis
    by (simp add: base_columns_def row_key_def row_column_def key_ok_def float_columns_def
        is_string_def)
qed

lemma from_rows_gateway:
  assumes "list_all (\<lambda>(b, p). gateway_point p) db" and "r \<in> set (apply_stage db now tbl (From b))"
  shows "key_ok (row_key r) \<and> float_columns (row_column r)"
proof -
  from assms(2) obtain p where p: "(b, p) \<in> set db" and r: "r \<in> set (series_rows p)"
    by auto
  from assms(1) p have "gateway_point p"
    by (auto simp: list_all_iff)
  then show ?thesis using r by (rule series_row_gateway)
qed

lemma float_columns_append: "float_columns a \<Longrightarrow> float_columns b \<Longrightarrow> float_columns (a @ b)"
  by (simp add: float_columns_def)

lemma float_columns_lookup:
  assumes "float_columns cs"
  shows "nil_or_float64 (map_of cs key)"
proof (cases "map_of cs key")
  case None
  then show ?thesis by (simp add: nil_or_float64_def)
next
  case (Some v)
  then have "(key, v) \<in> set cs" by (rule map_of_SomeD)
  with assms have "is_float64 v"
    by (force simp: float_columns_def list_all_iff)
  with Some show ?thesis
    by (simp add: nil_or_float64_def is_float64_def split: flux_value.splits)
qed

lemma decode_pivot_row:
  assumes "key_ok k" and "float_columns cs"
  shows "\<exists>data. decodeRecord (k @ cs) = Inr data"
proof -
  from assms(1) obtain sid loc where
    "map_of k ''sensor_id'' = Some (VString sid)" "map_of k ''location'' = Some (VString loc)"
    by (auto simp: key_ok_def is_string_def split: option.splits flux_value.splits)
  then have tags: "ValueByKey (k @ cs) ''sensor_id'' = Some (VString sid)"
    "ValueByKey (k @ cs) ''location'' = Some (VString loc)"
    by (simp_all add: ValueByKey_def)
  from assms(1) have "ValueByKey (k @ cs) key = map_of cs key"
    if "key \<in> {''temperature'', ''humidity'', ''pressure'', ''altitude''}" for key
    using that by (auto simp: key_ok_def ValueByKey_def map_add_def split: option.splits)
  with float_columns_lookup [OF assms(2)] have
    "nil_or_float64 (ValueByKey (k @ cs) ''temperature'')"
    "nil_or_float64 (ValueByKey (k @ cs) ''humidity'')"
    "nil_or_float64 (ValueByKey (k @ cs) ''pressure'')"
    "nil_or_float64 (ValueByKey (k @ cs) ''altitude'')"
    by simp_all
  with decodeRecord_total [OF tags] show ?thesis by blast
qed

lemma pivot_gateway_rows_decode:
  assumes "\<forall>r \<in> set tbl. key_ok (row_key r) \<and> float_columns (row_column r)"
    and "row \<in> set (pivot tbl)"
  shows "\<exists>data. decodeRecord row = Inr data"
proof -
  have "\<forall>a b. float_columns a \<longrightarrow> float_columns b \<longrightarrow> float_columns (a @ b)"
    by (simp add: float_columns_append)
  from pivot_rows [OF assms(1) this assms(2)]
  obtain k cs where "row = k @ cs" "key_ok k" "float_columns cs" by blast
  then show ?thesis using decode_pivot_row by blast
qed

lemma decodeRecords_total:
  "\<forall>row \<in> set tbl. \<exists>data. decodeRecord row = Inr data \<Longrightarrow> \<exists>sensorData. decodeRecords tbl = Inr sensorData"
  by (induction tbl) auto

subsection \<open>Columns that pass through the pipeline\<close>

lemma map_of_row_key:
  "c \<noteq> ''_field'' \<Longrightarrow> c \<noteq> ''_value'' \<Longrightarrow> map_of (row_key r) c = map_of r c"
  by (induction r) (auto simp: row_key_def)

lemma pivot_keeps_column:
  assumes "\<forall>r \<in> set tbl. \<exists>v. map_of r c = Some v \<and> P v"
    and "c \<noteq> ''_field''" and "c \<noteq> ''_value''"
    and "row \<in> set (pivot tbl)"
  shows "\<exists>v. map_of row c = Some v \<and> P v"
proof -
  let ?K = "\<lambda>k. \<exists>v. map_of k c = Some v \<and> P v"
  have "\<forall>r \<in> set tbl. ?K (row_key r) \<and> True"
    using assms(1,2,3) by (simp add: map_of_row_key)
  from pivot_rows [of tbl ?K "\<lambda>cs. True", OF this _ assms(4)]
  obtain k cs where "row = k @ cs" "?K k" by blast
  then show ?thesis by (auto simp: map_add_def)
qed

lemma from_rows_time:
  assumes "r \<in> set (apply_stage db now tbl (From b))"
  shows "\<exists>t. map_of r ''_time'' = Some (VTime t)"
  using assms by (auto simp: series_rows_def base_columns_def)

lemma run_flux_append:
  "run_flux db now (a @ b) = foldl (apply_stage db now) (run_flux db now a) b"
  by (simp add: run_flux_def)

lemma Time_in_range:
  assumes "\<exists>v. map_of row ''_time'' = Some v
           \<and> (case v of VTime t \<Rightarrow> lo \<le> t \<and> t < now | _ \<Rightarrow> False)"
  shows "lo \<le> Time row \<and> Time row < now"
proof -
  from assms obtain v where v: "map_of row ''_time'' = Some v"
    and b: "case v of VTime t \<Rightarrow> lo \<le> t \<and> t < now | _ \<Rightarrow> False"
    by blast
  from b v show ?thesis by (cases v) (simp_all add: Time_def)
qed

subsection \<open>The two queries, evaluated\<close>


lemma byid_query_split:
  "getSensorDataByID_query app i = getSensorDataByID_candidates app i @ [SortTimeDesc, Limit 1]"
  by (simp add: getSensorDataByID_query_def getSensorDataByID_candidates_def
      getSensorDataByID_filters_def)

lemma byid_rows:
  "run_flux db now (getSensorDataByID_query app i)
     = take 1 (sort_key (\<lambda>r. - Time r) (run_flux db now (getSensorDataByID_candidates app i)))"
  by (simp add: byid_query_split run_flux_append)



lemma list_filters_rows:
  assumes "r \<in> set (run_flux db now (getSensorData_filters app loc))"
  shows "r \<in> set (apply_stage db now [] (From (bucket app)))"
    and "now + duration_ns (Hours (- 24)) \<le> Time r \<and> Time r < now"
    and "loc \<noteq> [] \<longrightarrow> map_of r ''location'' = Some (VString loc)"
  using assms by (simp_all add: run_flux_def getSensorData_filters_def split: if_splits)

lemma list_query_split:
  "getSensorData_query app loc n = getSensorData_filters app loc @ [Pivot, Limit n, SortTimeDesc]"
  by (simp add: getSensorData_query_def getSensorData_filters_def)

lemma list_rows_pivoted:
  assumes "row \<in> set (run_flux db now (getSensorData_query app loc n))"
  shows "row \<in> set (pivot (run_flux db now (getSensorData_filters app loc)))"
  using assms by (auto simp: list_query_split run_flux_append dest: in_set_takeD)

lemma byid_candidates_pivoted:
  "run_flux db now (getSensorDataByID_candidates app i)
     = pivot (run_flux db now (getSensorDataByID_filters app i))"
  by (simp add: getSensorDataByID_candidates_def run_flux_append)


lemma list_rows_decode:
  assumes "gateway_store st"
    and "row \<in> set (run_flux (points st) now (getSensorData_query app loc n))"
  shows "\<exists>data. decodeRecord row = Inr data"
proof -
  have "\<forall>r \<in> set (run_flux (points st) now (getSensorData_filters app loc)).
          key_ok (row_key r) \<and> float_columns (row_column r)"
    using assms(1) list_filters_rows(1) from_rows_gateway
    unfolding gateway_store_def by blast
  with list_rows_pivoted [OF assms(2)] show ?thesis
    by (rule pivot_gateway_rows_decode [rotated])
qed

lemma list_rows_last_day:
  assumes "row \<in> set (run_flux db now (getSensorData_query app loc n))"
  shows "now - 24 * hour \<le> Time row \<and> Time row < now"
proof -
  let ?tbl = "run_flux db now (getSensorData_filters app loc)"
  let ?P = "\<lambda>v. case v of VTime t \<Rightarrow> now - 24 * hour \<le> t \<and> t < now | _ \<Rightarrow> False"
  have "\<exists>v. map_of r ''_time'' = Some v \<and> ?P v" if "r \<in> set ?tbl" for r
  proof -
    from list_filters_rows(1) [OF that] obtain t where "map_of r ''_time'' = Some (VTime t)"
      using from_rows_time by blast
    with list_filters_rows(2) [OF that] show ?thesis by (simp add: Time_def)
  qed
  then have "\<forall>r \<in> set ?tbl. \<exists>v. map_of r ''_time'' = Some v \<and> ?P v" by blast
  from pivot_keeps_column [OF this _ _ list_rows_pivoted [OF assms]]
  have "\<exists>v. map_of row ''_time'' = Some v \<and> ?P v" by simp
  then show ?thesis by (rule Time_in_range)
qed

lemma list_rows_location:
  assumes "row \<in> set (run_flux db now (getSensorData_query app loc n))" and "loc \<noteq> []"
  shows "ValueByKey row ''location'' = Some (VString loc)"
proof -
  let ?tbl = "run_flux db now (getSensorData_filters app loc)"
  have "\<forall>r \<in> set ?tbl. \<exists>v. map_of r ''location'' = Some v \<and> v = VString loc"
    using list_filters_rows(3) assms(2) by blast
  from pivot_keeps_column [OF this _ _ list_rows_pivoted [OF assms(1)]]
  show ?thesis by (simp add: ValueByKey_def)
qed


lemma Query_rows:
  assumes "Query st now q = Inr result"
  shows "\<exists>n. rows result = take n (run_flux (points st) now q)"
proof (cases "stream_fault st")
  case None
  with assms have "rows result = take (length (run_flux (points st) now q)) (run_flux (points st) now q)"
    by (auto simp: Query_def split: if_splits)
  then show ?thesis by blast
next
  case (Some n)
  with assms have "rows result = take n (run_flux (points st) now q)"
    by (auto simp: Query_def split: if_splits)
  then show ?thesis by blast
qed

lemma getSensorData_rows_decode:
  assumes "gateway_store st"
    and "Query st now (getSensorData_query app loc n) = Inr result"
  shows "\<exists>sensorData. decodeRecords (rows result) = Inr sensorData"
proof -
  from Query_rows [OF assms(2)] obtain k where
    "rows result = take k (run_flux (points st) now (getSensorData_query app loc n))"
    by blast
  then have "set (rows result) \<subseteq> set (run_flux (points st) now (getSensorData_query app loc n))"
    by (simp add: set_take_subset)
  with list_rows_decode [OF assms(1)] have "\<forall>row \<in> set (rows result). \<exists>data. decodeRecord row = Inr data"
    by blast
  then show ?thesis by (rule decodeRecords_total)
qed

lemmas response_simps =
  sendErrorResponse_def sendSuccessResponse_def fails_with_def succeeded_def StatusOK_def
  StatusBadRequest_def StatusNotFound_def StatusInternalServerError_def StatusNotImplemented_def


subsection \<open>The example stores, evaluated\<close>

lemmas example_simps =
  Query_def two_store_def empty_store_def unreachable_store_def example_app_def sensor_point_def
  older_reading_def newer_reading_def reading_row_def flux_eval_simps

lemma decode_reading_row: "decodeRecord (reading_row d) = Inr d"
  by (simp add: decodeRecord_def reading_row_def assert_string_def extract_field_def
      assert_float64_def ValueByKey_def Time_def)




lemma unreachable_query: "Query unreachable_store now q = Inl CallFailed"
  by (simp add: Query_def unreachable_store_def)



section \<open>List\<close>

lemma list_query_stages:
  "(\<forall>d. RangeStart d \<in> set (getSensorData_query app loc n) \<longrightarrow> d = Hours (- 24))
   \<and> RangeStart (Hours (- 24)) \<in> set (getSensorData_query app loc n)
   \<and> ((\<exists>k v. FilterTag k v \<in> set (getSensorData_query app loc n)) \<longleftrightarrow> loc \<noteq> [])
   \<and> (\<forall>k v. FilterTag k v \<in> set (getSensorData_query app loc n) \<longrightarrow> k = ''location'' \<and> v = loc)"
  by (auto simp: getSensorData_query_def)

text \<open>
  Claim C8. For every List request the query ranges over the last 24 hours (its only range
  stage starts 24 hours back, and every row of the result lies in that window); a
  location filter is part of the query exactly when a non-empty location parameter is
  supplied (and then every row has that location); the request fails with StorageError
  when the store call fails (the call itself, or the result stream after it); and when
  the store produces no rows the request succeeds with an empty sequence of readings.
\<close>

theorem getSensorData_query_and_outcomes:
  "(\<forall>d. RangeStart d \<in> set (getSensorData_query app (Get (url_query r) ''location'')
                                  (getSensorData_limitInt (Get (url_query r) ''limit'')))
        \<longrightarrow> d = Hours (- 24))
   \<and> RangeStart (Hours (- 24)) \<in> set (getSensorData_query app (Get (url_query r) ''location'')
                                  (getSensorData_limitInt (Get (url_query r) ''limit'')))
   \<and> (\<forall>row \<in> set (run_flux (points st) now
                       (getSensorData_query app (Get (url_query r) ''location'')
                          (getSensorData_limitInt (Get (url_query r) ''limit'')))).
        now - 24 * hour \<le> Time row \<and> Time row < now)
   \<and> ((\<exists>k v. FilterTag k v \<in> set (getSensorData_query app (Get (url_query r) ''location'')
                                  (getSensorData_limitInt (Get (url_query r) ''limit''))))
        \<longleftrightarrow> Get (url_query r) ''location'' \<noteq> [])
   \<and> (\<forall>k v. FilterTag k v \<in> set (getSensorData_query app (Get (url_query r) ''location'')
                                  (getSensorData_limitInt (Get (url_query r) ''limit'')))
        \<longrightarrow> k = ''location'' \<and> v = Get (url_query r) ''location'')
   \<and> (Get (url_query r) ''location'' \<noteq> [] \<longrightarrow>
        (\<forall>row \<in> set (run_flux (points st) now
                       (getSensorData_query app (Get (url_query r) ''location'')
                          (getSensorData_limitInt (Get (url_query r) ''limit'')))).
           ValueByKey row ''location'' = Some (VString (Get (url_query r) ''location''))))
   \<and> ((\<exists>err. Query st now (getSensorData_query app (Get (url_query r) ''location'')
                               (getSensorData_limitInt (Get (url_query r) ''limit''))) = Inl err)
        \<longrightarrow> fails_with StorageError (getSensorData app now r st))
   \<and> (\<forall>result. Query st now (getSensorData_query app (Get (url_query r) ''location'')
                               (getSensorData_limitInt (Get (url_query r) ''limit''))) = Inr result
         \<and> failed result \<and> gateway_store st
        \<longrightarrow> fails_with StorageError (getSensorData app now r st))
   \<and> (\<forall>result. Query st now (getSensorData_query app (Get (url_query r) ''location'')
                               (getSensorData_limitInt (Get (url_query r) ''limit''))) = Inr result
         \<and> rows result = [] \<and> \<not> failed result
        \<longrightarrow> getSensorData app now r st =
              Responded 200 \<lparr>Status = ''success'', Message = ''Data retrieved successfully'',
                              Data = ManyReadings []\<rparr>)"
proof -
  let ?loc = "Get (url_query r) ''location''"
  let ?q = "getSensorData_query app ?loc (getSensorData_limitInt (Get (url_query r) ''limit''))"
  note stages = list_query_stages [of app ?loc "getSensorData_limitInt (Get (url_query r) ''limit'')"]
  have window: "\<forall>row \<in> set (run_flux (points st) now ?q). now - 24 * hour \<le> Time row \<and> Time row < now"
    using list_rows_last_day by blast
  have located: "?loc \<noteq> [] \<longrightarrow>
        (\<forall>row \<in> set (run_flux (points st) now ?q). ValueByKey row ''location'' = Some (VString ?loc))"
    using list_rows_location by blast
  have storage: "(\<exists>err. Query st now ?q = Inl err) \<longrightarrow> fails_with StorageError (getSensorData app now r st)"
    by (auto simp: getSensorData_def Let_def response_simps)
  have empty: "\<forall>result. Query st now ?q = Inr result \<and> rows result = [] \<and> \<not> failed result
        \<longrightarrow> getSensorData app now r st =
              Responded 200 \<lparr>Status = ''success'', Message = ''Data retrieved successfully'',
                              Data = ManyReadings []\<rparr>"
    by (auto simp: getSensorData_def Let_def response_simps)
  have broken: "fails_with StorageError (getSensorData app now r st)"
    if "Query st now ?q = Inr result" and "failed result" and "gateway_store st" for result
  proof -
    from getSensorData_rows_decode [OF that(3,1)] obtain sensorData where
      "decodeRecords (rows result) = Inr sensorData" by blast
    with that(1,2) show ?thesis
      by (simp add: getSensorData_def Let_def response_simps)
  qed
  from stages window located storage broken empty show ?thesis by blast
qed

lemma two_store_list_lab:
  "run_flux (points two_store) 5000 (getSensorData_query example_app ''lab'' 100)
     = [reading_row newer_reading, reading_row older_reading]"
  by (simp add: example_simps getSensorData_query_def)

lemma empty_store_list:
  "Query empty_store 5000 (getSensorData_query example_app [] 100)
     = Inr \<lparr>rows = [], failed = False\<rparr>"
  by (simp add: example_simps getSensorData_query_def)

theorem getSensorData_query_and_outcomes_witness:
  "FilterTag ''location'' ''lab'' \<in> set (getSensorData_query example_app ''lab'' 100)
   \<and> \<not> (\<exists>k v. FilterTag k v \<in> set (getSensorData_query example_app [] 100))
   \<and> fails_with StorageError (getSensorData example_app 5000 (list_request []) unreachable_store)
   \<and> fails_with StorageError (getSensorData example_app 5000 (list_request []) broken_store)
   \<and> getSensorData example_app 5000 (list_request []) empty_store =
       Responded 200 \<lparr>Status = ''success'', Message = ''Data retrieved successfully'',
                       Data = ManyReadings []\<rparr>
   \<and> 5000 - 24 * hour \<le> Time (reading_row older_reading)
   \<and> Time (reading_row older_reading) < 5000
   \<and> ValueByKey (reading_row older_reading) ''location'' = Some (VString ''lab'')"
proof -
  let ?lab = "list_request [(''location'', ''lab'')]"
  let ?all = "list_request []"
  have lab: "Get (url_query ?lab) ''location'' = ''lab''" "Get (url_query ?lab) ''limit'' = []"
    and all: "Get (url_query ?all) ''location'' = []" "Get (url_query ?all) ''limit'' = []"
    by (simp_all add: list_request_def Get_def)
  have lim: "getSensorData_limitInt [] = 100"
    by (simp add: getSensorData_limitInt_def)
  note t_lab = getSensorData_query_and_outcomes [of example_app ?lab two_store 5000, unfolded lab lim]
  note t_all = getSensorData_query_and_outcomes [of example_app ?all empty_store 5000, unfolded all lim]
  note t_down = getSensorData_query_and_outcomes [of example_app ?all unreachable_store 5000, unfolded all lim]
  note t_broken = getSensorData_query_and_outcomes [of example_app ?all broken_store 5000, unfolded all lim]
  have named: "''lab'' \<noteq> []" by simp
  from t_lab named obtain k v where "FilterTag k v \<in> set (getSensorData_query example_app ''lab'' 100)"
    by blast
  moreover from this t_lab have "k = ''location'' \<and> v = ''lab''" by blast
  ultimately have 1: "FilterTag ''location'' ''lab'' \<in> set (getSensorData_query example_app ''lab'' 100)"
    by simp
  from t_all have 2: "\<not> (\<exists>k v. FilterTag k v \<in> set (getSensorData_query example_app [] 100))"
    by blast
  have "\<exists>err. Query unreachable_store 5000 (getSensorData_query example_app [] 100) = Inl err"
    by (simp add: unreachable_query)
  with t_down have 3: "fails_with StorageError (getSensorData example_app 5000 ?all unreachable_store)"
    by blast
  have "Query empty_store 5000 (getSensorData_query example_app [] 100) = Inr \<lparr>rows = [], failed = False\<rparr>
        \<and> rows \<lparr>rows = [], failed = False\<rparr> = [] \<and> \<not> failed \<lparr>rows = [], failed = False\<rparr>"
    by (simp add: empty_store_list)
  with t_all have 4: "getSensorData example_app 5000 ?all empty_store =
       Responded 200 \<lparr>Status = ''success'', Message = ''Data retrieved successfully'',
                       Data = ManyReadings []\<rparr>"
    by blast
  have mem: "reading_row older_reading
      \<in> set (run_flux (points two_store) 5000 (getSensorData_query example_app ''lab'' 100))"
    by (simp add: two_store_list_lab)
  with t_lab have 5: "5000 - 24 * hour \<le> Time (reading_row older_reading)
      \<and> Time (reading_row older_reading) < 5000"
    by blast
  from t_lab named mem have 6: "ValueByKey (reading_row older_reading) ''location'' = Some (VString ''lab'')"
    by blast
  have "Query broken_store 5000 (getSensorData_query example_app [] 100)
          = Inr \<lparr>rows = [reading_row newer_reading], failed = True\<rparr>
        \<and> failed \<lparr>rows = [reading_row newer_reading], failed = True\<rparr>
        \<and> gateway_store broken_store"
    by (simp add: broken_store_def gateway_store_def gateway_point_def is_float64_def
        example_simps getSensorData_query_def)
  with t_broken have 7: "fails_with StorageError (getSensorData example_app 5000 ?all broken_store)"
    by blast
  from 1 2 3 4 5 6 7 show ?thesis by blast
qed

section \<open>Round trip\<close>

lemma point_row_sensor_point: "point_row (sensor_point d) = reading_row d"
  by (simp add: point_row_def sensor_point_def reading_row_def base_columns_def)

lemma latest_written_appended:
  "latest_written b (ID d) (db @ [(b, sensor_point d)]) = Some (sensor_point d)"
  by (simp add: latest_written_def sensor_point_def)


subsection \<open>Sorting a list whose last element is extreme\<close>

lemma insort_key_before_last:
  "f a \<le> f x \<Longrightarrow> insort_key f a (ys @ [x]) = insort_key f a ys @ [x]"
  by (induction ys) auto

lemma sort_key_snoc_greatest:
  "\<forall>y \<in> set xs. f y \<le> f x \<Longrightarrow> sort_key f (xs @ [x]) = sort_key f xs @ [x]"
proof (induction xs)
  case Nil
  then show ?case by simp
next
  case (Cons a xs)
  then have "sort_key f (xs @ [x]) = sort_key f xs @ [x]" and "f a \<le> f x"
    by simp_all
  then show ?case
    by (simp add: insort_key_before_last)
qed

lemma insort_key_after_head:
  assumes "f x < f a"
  shows "insort_key f a (x # ys) = x # insort_key f a ys"
proof -
  from assms have "\<not> f a \<le> f x" by (simp add: not_le)
  then show ?thesis by simp
qed

lemma sort_key_snoc_least:
  "\<forall>y \<in> set xs. f x < f y \<Longrightarrow> sort_key f (xs @ [x]) = x # sort_key f xs"
proof (induction xs)
  case Nil
  then show ?case by simp
next
  case (Cons a xs)
  then have "sort_key f (xs @ [x]) = x # sort_key f xs" and "f x < f a"
    by simp_all
  then show ?case
    by (simp add: insort_key_after_head del: insort_key.simps)
qed

subsection \<open>Filters act on whole points\<close>

lemma filter_series_rows:
  assumes "\<forall>p \<in> set ps. \<forall>r \<in> set (series_rows p). P r = Q p"
  shows "filter P (concat (map series_rows ps)) = concat (map series_rows (filter Q ps))"
  using assms
proof (induction ps)
  case Nil
  then show ?case by simp
next
  case (Cons p ps)
  then have same: "\<forall>r \<in> set (series_rows p). P r = Q p" by simp
  have "filter P (series_rows p) = (if Q p then series_rows p else [])"
  proof (cases "Q p")
    case True
    with same have "\<forall>r \<in> set (series_rows p). P r" by simp
    with True show ?thesis by simp
  next
    case False
    with same have "\<forall>r \<in> set (series_rows p). \<not> P r" by simp
    with False show ?thesis by simp
  qed
  with Cons show ?case by simp
qed

lemma series_row_columns:
  assumes "r \<in> set (series_rows p)"
  shows "Time r = ptime p"
    and "map_of r ''_measurement'' = Some (VString (measurement p))"
    and "map_of r ''sensor_id'' = map_option VString (map_of (ptags p) ''sensor_id'')"
proof -
  from assms obtain f v where r: "r = base_columns p @ [(''_field'', VString f), (''_value'', v)]"
    by (auto simp: series_rows_def)
  show "Time r = ptime p" "map_of r ''_measurement'' = Some (VString (measurement p))"
    by (simp_all add: r Time_def base_columns_def)
  have "map_of (map (\<lambda>(k, v). (k, VString v)) (ptags p)) = map_option VString \<circ> map_of (ptags p)"
    by (rule map_of_map)
  then show "map_of r ''sensor_id'' = map_option VString (map_of (ptags p) ''sensor_id'')"
    by (cases "map_of (ptags p) ''sensor_id''") (simp_all add: r base_columns_def map_add_def)
qed

lemma series_row_time_column:
  assumes "r \<in> set (series_rows p)"
  shows "map_of (row_key r) ''_time'' = Some (VTime (ptime p))"
proof -
  from assms obtain f v where r: "r = base_columns p @ [(''_field'', VString f), (''_value'', v)]"
    by (auto simp: series_rows_def)
  have "map_of r ''_time'' = Some (VTime (ptime p))"
    by (simp add: r base_columns_def)
  then show ?thesis by (simp add: map_of_row_key)
qed

subsection \<open>The pivot of a point with a new key\<close>

lemma pivot_add_new_key:
  "row_key r \<notin> fst ` set out \<Longrightarrow> pivot_add r out = out @ [(row_key r, row_column r)]"
  by (induction out) auto

lemma pivot_add_last_key:
  "row_key r \<notin> fst ` set out \<Longrightarrow>
     pivot_add r (out @ [(row_key r, cs)]) = out @ [(row_key r, cs @ row_column r)]"
  by (induction out) auto

lemma sensor_point_pivoted:
  assumes "base_columns (sensor_point d) \<notin> fst ` set out"
  shows "foldl (\<lambda>out r. pivot_add r out) out (series_rows (sensor_point d))
           = out @ [(base_columns (sensor_point d), pfields (sensor_point d))]"
proof -
  let ?k = "base_columns (sensor_point d)"
  have key: "row_key r = ?k" if "r \<in> set (series_rows (sensor_point d))" for r
    using that by (auto simp: series_rows_def sensor_point_def base_columns_def row_key_def)
  have col: "map row_column (series_rows (sensor_point d)) = map (\<lambda>c. [c]) (pfields (sensor_point d))"
    by (simp add: series_rows_def sensor_point_def base_columns_def row_column_def)
  obtain r1 r2 r3 r4 where rs: "series_rows (sensor_point d) = [r1, r2, r3, r4]"
    by (simp add: series_rows_def sensor_point_def)
  with key have k: "row_key r1 = ?k" "row_key r2 = ?k" "row_key r3 = ?k" "row_key r4 = ?k"
    by simp_all
  from col rs obtain c1 c2 c3 c4 where cs: "pfields (sensor_point d) = [c1, c2, c3, c4]"
    "row_column r1 = [c1]" "row_column r2 = [c2]" "row_column r3 = [c3]" "row_column r4 = [c4]"
    by (auto simp: map_eq_Cons_conv)
  have 1: "pivot_add r1 out = out @ [(?k, [c1])]"
    using pivot_add_new_key [of r1 out] assms k cs by simp
  have 2: "pivot_add r2 (out @ [(?k, [c1])]) = out @ [(?k, [c1, c2])]"
    using pivot_add_last_key [of r2 out "[c1]"] assms k cs by simp
  have 3: "pivot_add r3 (out @ [(?k, [c1, c2])]) = out @ [(?k, [c1, c2, c3])]"
    using pivot_add_last_key [of r3 out "[c1, c2]"] assms k cs by simp
  have 4: "pivot_add r4 (out @ [(?k, [c1, c2, c3])]) = out @ [(?k, [c1, c2, c3, c4])]"
    using pivot_add_last_key [of r4 out "[c1, c2, c3]"] assms k cs by simp
  show ?thesis
    by (simp add: rs cs(1) 1 2 3 4)
qed

subsection \<open>The query by id after a write with the latest timestamp\<close>

lemma byid_filters_points:
  "run_flux db now (getSensorDataByID_filters app i) =
     concat (map series_rows
       (sort_key ptime (filter (byid_matches now i) (map snd (filter (\<lambda>(b', p). b' = bucket app) db)))))"
proof -
  let ?S = "sort_key ptime (map snd (filter (\<lambda>(b', p). b' = bucket app) db))"
  let ?P1 = "\<lambda>r. now + duration_ns (Days (- 30)) \<le> Time r \<and> Time r < now"
  let ?P2 = "\<lambda>r. map_of r ''_measurement'' = Some (VString ''sensor_readings'')"
  let ?P3 = "\<lambda>r. map_of r ''sensor_id'' = Some (VString i)"
  let ?Q1 = "\<lambda>p. now - 30 * day \<le> ptime p \<and> ptime p < now"
  let ?Q2 = "\<lambda>p. measurement p = ''sensor_readings''"
  let ?Q3 = "\<lambda>p. map_of (ptags p) ''sensor_id'' = Some i"
  have run: "run_flux db now (getSensorDataByID_filters app i)
               = filter ?P3 (filter ?P2 (filter ?P1 (concat (map series_rows ?S))))"
    by (simp add: run_flux_def getSensorDataByID_filters_def)
  have 1: "filter ?P1 (concat (map series_rows ps)) = concat (map series_rows (filter ?Q1 ps))" for ps
    by (rule filter_series_rows) (simp add: series_row_columns)
  have 2: "filter ?P2 (concat (map series_rows ps)) = concat (map series_rows (filter ?Q2 ps))" for ps
    by (rule filter_series_rows) (simp add: series_row_columns)
  have 3: "filter ?P3 (concat (map series_rows ps)) = concat (map series_rows (filter ?Q3 ps))" for ps
    by (rule filter_series_rows) (auto simp: series_row_columns)
  have "filter ?Q3 (filter ?Q2 (filter ?Q1 ?S)) = filter (\<lambda>p. ?Q1 p \<and> ?Q2 p \<and> ?Q3 p) ?S"
    by (simp add: conj_commute conj_left_commute cong: conj_cong)
  also have "\<dots> = filter (byid_matches now i) ?S"
    by (rule filter_cong) (auto simp: byid_matches_def)
  finally show ?thesis
    by (simp only: run 1 2 3 filter_sort)
qed

lemma newest_point_is_returned:
  assumes older: "\<forall>(b', p) \<in> set db. b' = bucket app \<longrightarrow>
                    map_of (ptags p) ''sensor_id'' = Some (ID d) \<longrightarrow> ptime p < Timestamp d"
    and window: "now - 30 * day \<le> Timestamp d" "Timestamp d < now"
  shows "run_flux (db @ [(bucket app, sensor_point d)]) now (getSensorDataByID_query app (ID d))
           = [reading_row d]"
proof -
  let ?new = "sensor_point d"
  let ?olds = "filter (byid_matches now (ID d)) (map snd (filter (\<lambda>(b', p). b' = bucket app) db))"
  let ?step = "\<lambda>out r. pivot_add r out"
  let ?acc = "foldl ?step [] (concat (map series_rows (sort_key ptime ?olds)))"
  let ?K = "\<lambda>k. \<exists>t. map_of k ''_time'' = Some (VTime t) \<and> t < Timestamp d"
  have new: "byid_matches now (ID d) ?new"
    using window by (simp add: byid_matches_def sensor_point_def)
  have old_times: "\<forall>p \<in> set ?olds. ptime p < Timestamp d"
    using older by (auto simp: byid_matches_def)
  then have "\<forall>p \<in> set ?olds. ptime p \<le> ptime ?new"
    by (auto simp: sensor_point_def)
  then have sorted: "sort_key ptime (?olds @ [?new]) = sort_key ptime ?olds @ [?new]"
    by (rule sort_key_snoc_greatest)
  have "filter (byid_matches now (ID d))
          (map snd (filter (\<lambda>(b', p). b' = bucket app) (db @ [(bucket app, ?new)])))
        = ?olds @ [?new]"
    using new by simp
  then have filters: "run_flux (db @ [(bucket app, ?new)]) now (getSensorDataByID_filters app (ID d))
      = concat (map series_rows (sort_key ptime ?olds)) @ series_rows ?new"
    by (simp add: byid_filters_points sorted)
  have "\<forall>r \<in> set (concat (map series_rows (sort_key ptime ?olds))). ?K (row_key r) \<and> True"
    using old_times series_row_time_column by fastforce
  from pivot_fold_keeps [of "[]" ?K "\<lambda>cs. True", OF _ this]
  have acc: "\<forall>(k, cs) \<in> set ?acc. ?K k"
    by simp
  have key_time: "map_of (base_columns ?new) ''_time'' = Some (VTime (Timestamp d))"
    by (simp add: base_columns_def sensor_point_def)
  have fresh: "base_columns ?new \<notin> fst ` set ?acc"
  proof
    assume "base_columns ?new \<in> fst ` set ?acc"
    then obtain cs where "(base_columns ?new, cs) \<in> set ?acc" by auto
    with acc have "?K (base_columns ?new)" by blast
    with key_time show False by simp
  qed
  have joined: "(\<lambda>(k, cs). k @ cs) (base_columns ?new, pfields ?new) = reading_row d"
    by (simp add: base_columns_def sensor_point_def reading_row_def)
  have cand: "run_flux (db @ [(bucket app, ?new)]) now (getSensorDataByID_candidates app (ID d))
      = map (\<lambda>(k, cs). k @ cs) ?acc @ [reading_row d]"
    using sensor_point_pivoted [OF fresh] joined
    by (simp add: byid_candidates_pivoted filters pivot_def)
  have "Time (k @ cs) < Timestamp d" if "(k, cs) \<in> set ?acc" for k cs
  proof -
    from acc that obtain t where "map_of k ''_time'' = Some (VTime t)" "t < Timestamp d"
      by blast
    then show ?thesis by (simp add: Time_def map_add_def)
  qed
  moreover have "Time (reading_row d) = Timestamp d"
    by (simp add: Time_def reading_row_def)
  ultimately have "\<forall>y \<in> set (map (\<lambda>(k, cs). k @ cs) ?acc). - Time (reading_row d) < - Time y"
    by auto
  then have "sort_key (\<lambda>r. - Time r) (map (\<lambda>(k, cs). k @ cs) ?acc @ [reading_row d])
      = reading_row d # sort_key (\<lambda>r. - Time r) (map (\<lambda>(k, cs). k @ cs) ?acc)"
    by (rule sort_key_snoc_least)
  then show ?thesis
    by (simp add: byid_rows cand)
qed

lemma newest_point_returns_latest_written:
  assumes "\<forall>(b', p) \<in> set (points st). b' = bucket app \<longrightarrow>
             map_of (ptags p) ''sensor_id'' = Some (ID d) \<longrightarrow> ptime p < Timestamp d"
    and "now - 30 * day \<le> Timestamp d" and "Timestamp d < now"
    and "reachable st" and "stream_fault st = None"
  shows "returns_latest_written app now (ID d)
           (st\<lparr>points := points st @ [(bucket app, sensor_point d)]\<rparr>)"
  using newest_point_is_returned [OF assms(1,2,3)] assms(4,5)
  by (simp add: returns_latest_written_def Query_def latest_written_appended
      point_row_sensor_point)

lemma get_after_create:
  assumes "decoded_body r = Some d" and "reachable st"
    and "Get (vars r') ''id'' = ID (create_defaults now d)"
    and "returns_latest_written app now' (ID (create_defaults now d))
           (snd (createSensorData app now r st))"
  shows "getSensorDataByID app now' r' (snd (createSensorData app now r st)) =
           Responded 200 \<lparr>Status = ''success'', Message = ''Data retrieved successfully'',
                           Data = OneReading (create_defaults now d)\<rparr>"
proof -
  let ?stored = "create_defaults now d"
  let ?st' = "st\<lparr>points := points st @ [(bucket app, sensor_point ?stored)]\<rparr>"
  have st': "snd (createSensorData app now r st) = ?st'"
    by (simp add: createSensorData_written [OF assms(1,2)])
  have "latest_written (bucket app) (ID ?stored) (points ?st') = Some (sensor_point ?stored)"
    by (simp add: latest_written_appended)
  with assms(4) have q: "Query ?st' now' (getSensorDataByID_query app (ID ?stored)) =
      Inr \<lparr>rows = [reading_row ?stored], failed = False\<rparr>"
    by (simp add: st' returns_latest_written_def point_row_sensor_point)
  show ?thesis
    unfolding st'
    by (simp add: getSensorDataByID_def Let_def assms(3) q decode_reading_row response_simps)
qed





text \<open>
  In the Flux model of the store the proviso holds when the stored timestamp lies in the
  last 30 days and is later than the timestamp of every other point of the id: the sort
  then puts the written point first.
\<close>

lemma get_after_create_when_newest:
  assumes "decoded_body r = Some d" and "reachable st" and "stream_fault st = None"
    and "Get (vars r') ''id'' = ID (create_defaults now d)"
    and "\<forall>(b', p) \<in> set (points st). b' = bucket app \<longrightarrow>
           map_of (ptags p) ''sensor_id'' = Some (ID (create_defaults now d)) \<longrightarrow>
           ptime p < Timestamp (create_defaults now d)"
    and "now' - 30 * day \<le> Timestamp (create_defaults now d)"
    and "Timestamp (create_defaults now d) < now'"
  shows "getSensorDataByID app now' r' (snd (createSensorData app now r st)) =
           Responded 200 \<lparr>Status = ''success'', Message = ''Data retrieved successfully'',
                           Data = OneReading (create_defaults now d)\<rparr>"
proof -
  have "returns_latest_written app now' (ID (create_defaults now d))
          (snd (createSensorData app now r st))"
    using newest_point_returns_latest_written [OF assms(5,6,7,2,3)]
    by (simp add: createSensorData_written [OF assms(1,2)])
  with assms(1,2,4) show ?thesis by (rule get_after_create)
qed

section \<open>List: order of the stages\<close>

text \<open>
  Claim C1 says that the List query sorts descending by time and then caps the rows at
  the limit, so that the most recent readings are returned. The query the handler builds
  has the limit stage before the sort stage. With two readings in the store and limit=1
  the handler returns the older one; the order the claim states (sort, then limit, as
  the query by id has it) gives the newer one.
\<close>

theorem getSensorData_limits_before_sorting:
  "getSensorData_query app location limitInt =
     getSensorData_filters app location @ [Pivot, Limit limitInt, SortTimeDesc]
   \<and> getSensorData example_app 5000 (list_request [(''limit'', ''1'')]) two_store =
       Responded 200 \<lparr>Status = ''success'', Message = ''Data retrieved successfully'',
                       Data = ManyReadings [older_reading]\<rparr>
   \<and> run_flux (points two_store) 5000
         (getSensorData_filters example_app [] @ [Pivot, SortTimeDesc, Limit 1])
       = [reading_row newer_reading]
   \<and> Timestamp older_reading < Timestamp newer_reading"
proof -
  have lim: "getSensorData_limitInt ''1'' = 1"
    by (simp add: getSensorData_limitInt_def Atoi_def is_digit_def digit_val_def in_int_range_def)
  have q: "Query two_store 5000 (getSensorData_query example_app [] 1)
             = Inr \<lparr>rows = [reading_row older_reading], failed = False\<rparr>"
    by (simp add: example_simps getSensorData_query_def)
  have 1: "getSensorData_query app location limitInt =
     getSensorData_filters app location @ [Pivot, Limit limitInt, SortTimeDesc]"
    by (rule list_query_split)
  have 2: "getSensorData example_app 5000 (list_request [(''limit'', ''1'')]) two_store =
       Responded 200 \<lparr>Status = ''success'', Message = ''Data retrieved successfully'',
                       Data = ManyReadings [older_reading]\<rparr>"
    by (simp add: getSensorData_def Let_def list_request_def Get_def lim q decode_reading_row
        response_simps)
  have 3: "run_flux (points two_store) 5000
         (getSensorData_filters example_app [] @ [Pivot, SortTimeDesc, Limit 1])
       = [reading_row newer_reading]"
    by (simp add: example_simps getSensorData_filters_def)
  have 4: "Timestamp older_reading < Timestamp newer_reading"
    by (simp add: older_reading_def newer_reading_def)
  from 1 2 3 4 show ?thesis by (intro conjI)
qed

end
